theory Spec2Isabelle
  imports Complex_Main
begin

section \<open>JavaScript numbers\<close>

text \<open>
  The indicator functions of the dashboard compute on JavaScript numbers. A number is
  modelled as an exact real, extended with the three special values that the source can
  produce by dividing by zero: \<open>NaN\<close>, \<open>Infinity\<close> and \<open>-Infinity\<close>. Rounding and
  overflow of IEEE doubles are not modelled, and a zero is always the positive zero: on
  finite numbers the sum, the difference and the product are exact, where a double
  rounds and, beyond about \<open>1.8e308\<close>, becomes an infinity. What is proved below about
  the value of an entry is therefore a statement about the formula the code evaluates;
  which entries are present, absent or a fallback value does not depend on it.
  An array of \<open>number | null\<close> is a list of \<open>num option\<close>, where \<open>None\<close> is \<open>null\<close>.
  A period is a nonnegative integer.
\<close>

datatype num = Fin real | PInf | NInf | NaN

instantiation num :: "{plus, minus, times, inverse, abs, ord}"
begin

fun plus_num :: "num \<Rightarrow> num \<Rightarrow> num" where
  "plus_num (Fin a) (Fin b) = Fin (a + b)"
| "plus_num NaN _ = NaN"
| "plus_num _ NaN = NaN"
| "plus_num PInf NInf = NaN"
| "plus_num NInf PInf = NaN"
| "plus_num PInf _ = PInf"
| "plus_num _ PInf = PInf"
| "plus_num NInf _ = NInf"
| "plus_num _ NInf = NInf"

fun minus_num :: "num \<Rightarrow> num \<Rightarrow> num" where
  "minus_num (Fin a) (Fin b) = Fin (a - b)"
| "minus_num NaN _ = NaN"
| "minus_num _ NaN = NaN"
| "minus_num PInf PInf = NaN"
| "minus_num NInf NInf = NaN"
| "minus_num PInf _ = PInf"
| "minus_num _ NInf = PInf"
| "minus_num NInf _ = NInf"
| "minus_num _ PInf = NInf"

definition signed_inf :: "bool \<Rightarrow> num" where
  "signed_inf positive = (if positive then PInf else NInf)"

fun times_num :: "num \<Rightarrow> num \<Rightarrow> num" where
  "times_num (Fin a) (Fin b) = Fin (a * b)"
| "times_num NaN _ = NaN"
| "times_num _ NaN = NaN"
| "times_num (Fin a) PInf = (if a = 0 then NaN else signed_inf (0 < a))"
| "times_num (Fin a) NInf = (if a = 0 then NaN else signed_inf (a < 0))"
| "times_num PInf (Fin b) = (if b = 0 then NaN else signed_inf (0 < b))"
| "times_num NInf (Fin b) = (if b = 0 then NaN else signed_inf (b < 0))"
| "times_num PInf PInf = PInf"
| "times_num NInf NInf = PInf"
| "times_num PInf NInf = NInf"
| "times_num NInf PInf = NInf"

fun divide_num :: "num \<Rightarrow> num \<Rightarrow> num" where
  "divide_num (Fin a) (Fin b) =
     (if b = 0 then (if a = 0 then NaN else signed_inf (0 < a)) else Fin (a / b))"
| "divide_num NaN _ = NaN"
| "divide_num _ NaN = NaN"
| "divide_num (Fin a) PInf = Fin 0"
| "divide_num (Fin a) NInf = Fin 0"
| "divide_num PInf (Fin b) = signed_inf (0 \<le> b)"
| "divide_num NInf (Fin b) = signed_inf (b < 0)"
| "divide_num _ _ = NaN"

definition inverse_num :: "num \<Rightarrow> num" where
  "inverse_num x = Fin 1 div x"

fun abs_num :: "num \<Rightarrow> num" where
  "abs_num (Fin a) = Fin \<bar>a\<bar>"
| "abs_num NaN = NaN"
| "abs_num _ = PInf"

fun less_num :: "num \<Rightarrow> num \<Rightarrow> bool" where
  "less_num (Fin a) (Fin b) = (a < b)"
| "less_num NaN _ = False"
| "less_num _ NaN = False"
| "less_num NInf NInf = False"
| "less_num NInf _ = True"
| "less_num PInf _ = False"
| "less_num _ PInf = True"
| "less_num _ NInf = False"

fun less_eq_num :: "num \<Rightarrow> num \<Rightarrow> bool" where
  "less_eq_num (Fin a) (Fin b) = (a \<le> b)"
| "less_eq_num NaN _ = False"
| "less_eq_num _ NaN = False"
| "less_eq_num NInf _ = True"
| "less_eq_num _ PInf = True"
| "less_eq_num _ _ = False"

instance ..

end

text \<open>Strict equality \<open>===\<close> of two numbers: \<open>NaN\<close> equals nothing, itself included.\<close>

definition strict_eq :: "num \<Rightarrow> num \<Rightarrow> bool" where
  "strict_eq a b = (a = b \<and> a \<noteq> NaN)"

text \<open>\<open>xs.reduce((sum, x) => sum + x, 0)\<close>\<close>

definition sum_reduce :: "num list \<Rightarrow> num" where
  "sum_reduce xs = foldl (+) (Fin 0) xs"

text \<open>\<open>xs.slice(a, b)\<close> for \<open>0 \<le> a\<close>\<close>

definition slice :: "'a list \<Rightarrow> nat \<Rightarrow> nat \<Rightarrow> 'a list" where
  "slice xs a b = drop a (take b xs)"

text \<open>The number of a length or of a period.\<close>

definition of_count :: "nat \<Rightarrow> num" where
  "of_count n = Fin (real n)"

section \<open>Smoothing primitives\<close>

text \<open>
  \<open>calculateEMA\<close> of \<open>ChartPriceCallComponent\<close> and of \<open>ChartMacdComponent\<close> (the two
  are the same text). The loop that pushes the later values reads \<open>ema[i - 1]\<close>, the
  value pushed last; \<open>ema_loop\<close> carries it as \<open>prev\<close>. With period 0 the seed
  \<open>0 / 0\<close> is stored under the key \<open>-1\<close>, outside the elements, and is what the first
  \<open>ema[i - 1]\<close> reads.
\<close>

fun ema_loop :: "num \<Rightarrow> num \<Rightarrow> num list \<Rightarrow> num list" where
  "ema_loop multiplier prev [] = []"
| "ema_loop multiplier prev (p # ps) =
     (let e = (p * multiplier) + (prev * (Fin 1 - multiplier))
      in e # ema_loop multiplier e ps)"

definition calculateEMA :: "num list \<Rightarrow> nat \<Rightarrow> num option list" where
  "calculateEMA prices period =
     (let multiplier = Fin 2 / (of_count period + Fin 1) in
      if length prices < period then replicate (length prices) None
      else
        let seed = sum_reduce (take period prices) / of_count period
        in (replicate period None)[period - 1 := Some seed]
           @ map Some (ema_loop multiplier seed (drop period prices)))"

text \<open>
  The simple moving average as section 4.2 of the specification words it: position \<open>i\<close>
  is the mean of \<open>series[i-period+1 .. i]\<close> when \<open>i \<ge> period - 1\<close>, and absent otherwise.
  The repository has no function of this name; its indicators compute the mean inline
  as \<open>slice.reduce(...) / period\<close>.
\<close>

definition SMA :: "num list \<Rightarrow> nat \<Rightarrow> num option list" where
  "SMA series period =
     map (\<lambda>i. if int i < int period - 1 then None
              else Some (sum_reduce (slice series (i + 1 - period) (i + 1)) / of_count period))
       [0 ..< length series]"

section \<open>Momentum indicators\<close>

subsection \<open>RSI\<close>

text \<open>
  \<open>calculateRSI\<close> of \<open>ChartPriceCallComponent\<close> and of \<open>ChartRsiComponent\<close> (the same
  text). \<open>rsiData\<close> is the value returned.
\<close>

definition changes :: "num list \<Rightarrow> num list" where
  "changes prices = map (\<lambda>i. prices ! i - prices ! (i - 1)) [1 ..< length prices]"

definition gains_of :: "num list \<Rightarrow> num list" where
  "gains_of prices = map (\<lambda>change. if Fin 0 < change then change else Fin 0) (changes prices)"

definition losses_of :: "num list \<Rightarrow> num list" where
  "losses_of prices = map (\<lambda>change. if change < Fin 0 then \<bar>change\<bar> else Fin 0) (changes prices)"

definition rsi_value :: "num \<Rightarrow> num \<Rightarrow> num" where
  "rsi_value avgGain avgLoss =
     (if strict_eq avgLoss (Fin 0) then Fin 100
      else let rs = avgGain / avgLoss in Fin 100 - (Fin 100 / (Fin 1 + rs)))"

text \<open>
  Wilder's update \<open>(previous * (period - 1) + current) / period\<close>, which the source
  writes out in the RSI loop, in both smoothing functions and in the ADX of the put chart.
\<close>

definition wilder_step :: "nat \<Rightarrow> num \<Rightarrow> num \<Rightarrow> num" where
  "wilder_step period prev v = (prev * (of_count period - Fin 1) + v) / of_count period"

fun rsi_loop :: "nat \<Rightarrow> num \<Rightarrow> num \<Rightarrow> (num \<times> num) list \<Rightarrow> num option list" where
  "rsi_loop period avgGain avgLoss [] = []"
| "rsi_loop period avgGain avgLoss ((gain, loss) # rest) =
     (let avgGain' = wilder_step period avgGain gain;
          avgLoss' = wilder_step period avgLoss loss
      in Some (rsi_value avgGain' avgLoss') # rsi_loop period avgGain' avgLoss' rest)"

definition calculateRSI :: "num list \<Rightarrow> nat \<Rightarrow> num option list" where
  "calculateRSI prices period =
     (if length prices < period + 1 then replicate (length prices) None
      else
        let gains = gains_of prices;
            losses = losses_of prices;
            avgGain = sum_reduce (slice gains 0 period) / of_count period;
            avgLoss = sum_reduce (slice losses 0 period) / of_count period
        in None # Some (rsi_value avgGain avgLoss)
           # rsi_loop period avgGain avgLoss (drop period (zip gains losses)))"

subsection \<open>MACD\<close>

text \<open>
  \<open>calculateMACD\<close> of \<open>ChartPriceCallComponent\<close> and of \<open>ChartMacdComponent\<close> (the
  same text). \<open>macdData\<close> is the value returned. The alignment loop walks the MACD line
  with \<open>signalIndex\<close> into the signal line; \<open>align_signal\<close> carries the part of the
  signal line from \<open>signalIndex\<close> on.
\<close>

record macd_data =
  macd :: "num option list"
  signal :: "num option list"
  histogram :: "num option list"

definition macd_line :: "nat \<Rightarrow> num option list \<Rightarrow> num option list \<Rightarrow> num option list" where
  "macd_line n fastEMA slowEMA =
     map (\<lambda>i. case (fastEMA ! i, slowEMA ! i) of
                 (Some f, Some s) \<Rightarrow> Some (f - s)
               | _ \<Rightarrow> None) [0 ..< n]"

definition defined_values :: "num option list \<Rightarrow> num list" where
  "defined_values xs = map the (filter (\<lambda>val. val \<noteq> None) xs)"

fun align_signal :: "num option list \<Rightarrow> num option list \<Rightarrow> num option list" where
  "align_signal [] signalLine = []"
| "align_signal (None # macdLine) signalLine = None # align_signal macdLine signalLine"
| "align_signal (Some m # macdLine) [] = None # align_signal macdLine []"
| "align_signal (Some m # macdLine) (s # signalLine) = s # align_signal macdLine signalLine"

definition histogram_of :: "num option list \<Rightarrow> num option list \<Rightarrow> num option list" where
  "histogram_of macdLine alignedSignalLine =
     map (\<lambda>i. case (macdLine ! i, alignedSignalLine ! i) of
                 (Some m, Some s) \<Rightarrow> Some (m - s)
               | _ \<Rightarrow> None) [0 ..< length macdLine]"

definition calculateMACD :: "num list \<Rightarrow> nat \<Rightarrow> nat \<Rightarrow> nat \<Rightarrow> macd_data" where
  "calculateMACD prices fastPeriod slowPeriod signalPeriod =
     (if length prices < slowPeriod then
        \<lparr>macd = replicate (length prices) None,
         signal = replicate (length prices) None,
         histogram = replicate (length prices) None\<rparr>
      else
        let fastEMA = calculateEMA prices fastPeriod;
            slowEMA = calculateEMA prices slowPeriod;
            macdLine = macd_line (length prices) fastEMA slowEMA;
            signalLine = calculateEMA (defined_values macdLine) signalPeriod;
            alignedSignalLine = align_signal macdLine signalLine
        in \<lparr>macd = macdLine,
            signal = alignedSignalLine,
            histogram = histogram_of macdLine alignedSignalLine\<rparr>)"

section \<open>Volatility bands\<close>

text \<open>
  \<open>Math.pow(x, 2)\<close>, \<open>Math.sqrt\<close>, and \<open>Math.max\<close> and \<open>Math.min\<close> of a spread array
  (\<open>-Infinity\<close> and \<open>Infinity\<close> on the empty array, \<open>NaN\<close> as soon as one argument is).
\<close>

definition pow2 :: "num \<Rightarrow> num" where
  "pow2 x = x * x"

fun js_sqrt :: "num \<Rightarrow> num" where
  "js_sqrt (Fin a) = (if a < 0 then NaN else Fin (sqrt a))"
| "js_sqrt PInf = PInf"
| "js_sqrt NInf = NaN"
| "js_sqrt NaN = NaN"

definition js_max2 :: "num \<Rightarrow> num \<Rightarrow> num" where
  "js_max2 a b = (if a = NaN \<or> b = NaN then NaN else if a < b then b else a)"

definition js_min2 :: "num \<Rightarrow> num \<Rightarrow> num" where
  "js_min2 a b = (if a = NaN \<or> b = NaN then NaN else if b < a then b else a)"

definition js_max :: "num list \<Rightarrow> num" where
  "js_max xs = foldl js_max2 NInf xs"

definition js_min :: "num list \<Rightarrow> num" where
  "js_min xs = foldl js_min2 PInf xs"

record bands =
  upperBand :: "num option list"
  middleBand :: "num option list"
  lowerBand :: "num option list"

text \<open>
  The window of position \<open>i\<close>, \<open>prices.slice(i - period + 1, i + 1)\<close>; it is taken only
  where \<open>i \<ge> period - 1\<close>, so the start is not negative.
\<close>

definition window :: "num list \<Rightarrow> nat \<Rightarrow> nat \<Rightarrow> num list" where
  "window prices period i = slice prices (i + 1 - period) (i + 1)"

definition true_ranges :: "num list \<Rightarrow> num list" where
  "true_ranges sl = map (\<lambda>j. \<bar>sl ! j - sl ! (j - 1)\<bar>) [1 ..< length sl]"

definition variance_of :: "num list \<Rightarrow> num \<Rightarrow> nat \<Rightarrow> num" where
  "variance_of sl sma period =
     foldl (\<lambda>sum price. sum + pow2 (price - sma)) (Fin 0) sl / of_count period"

text \<open>
  \<open>calculateBollingerBands\<close> and \<open>calculateKeltnerChannels\<close> of
  \<open>ChartPriceCallComponent\<close> and of \<open>ChartBollingerKeltnerComponent\<close> (the same text).
  Each position pushes one entry to each of the three arrays; a row holds the three
  entries of one position, and \<open>bands_of_rows\<close> splits the rows into the arrays.
\<close>

definition bands_of_rows :: "(num option \<times> num option \<times> num option) list \<Rightarrow> bands" where
  "bands_of_rows rows =
     \<lparr>upperBand = map fst rows,
      middleBand = map (\<lambda>r. fst (snd r)) rows,
      lowerBand = map (\<lambda>r. snd (snd r)) rows\<rparr>"

definition bollinger_row :: "num list \<Rightarrow> nat \<Rightarrow> num \<Rightarrow> nat
    \<Rightarrow> num option \<times> num option \<times> num option" where
  "bollinger_row prices period standardDeviations i =
     (if int i < int period - 1 then (None, None, None)
      else
        let sl = window prices period i;
            sma = sum_reduce sl / of_count period;
            variance = variance_of sl sma period;
            stdDev = js_sqrt variance;
            upper = sma + (standardDeviations * stdDev);
            lower = sma - (standardDeviations * stdDev)
        in (Some upper, Some sma, Some lower))"

definition calculateBollingerBands :: "num list \<Rightarrow> nat \<Rightarrow> num \<Rightarrow> bands" where
  "calculateBollingerBands prices period standardDeviations =
     bands_of_rows (map (bollinger_row prices period standardDeviations) [0 ..< length prices])"

definition keltner_row :: "num list \<Rightarrow> nat \<Rightarrow> num \<Rightarrow> nat
    \<Rightarrow> num option \<times> num option \<times> num option" where
  "keltner_row prices period multiplier i =
     (if int i < int period - 1 then (None, None, None)
      else
        let sl = window prices period i;
            sma = sum_reduce sl / of_count period;
            trueRanges = true_ranges sl;
            atr = sum_reduce trueRanges / of_count (length trueRanges);
            upper = sma + (multiplier * atr);
            lower = sma - (multiplier * atr)
        in (Some upper, Some sma, Some lower))"

definition calculateKeltnerChannels :: "num list \<Rightarrow> nat \<Rightarrow> num \<Rightarrow> bands" where
  "calculateKeltnerChannels prices period multiplier =
     bands_of_rows (map (keltner_row prices period multiplier) [0 ..< length prices])"

section \<open>TTM Squeeze\<close>

text \<open>
  \<open>linearRegression\<close> of \<open>ChartTtmSqueezeComponent\<close>. The four sums of its loop are
  accumulated independently of each other.
\<close>

definition lr_sumX :: "nat \<Rightarrow> num" where
  "lr_sumX n = sum_reduce (map of_count [0 ..< n])"

definition lr_sumX2 :: "nat \<Rightarrow> num" where
  "lr_sumX2 n = sum_reduce (map (\<lambda>i. of_count i * of_count i) [0 ..< n])"

definition lr_sumXY :: "num list \<Rightarrow> num" where
  "lr_sumXY vals = sum_reduce (map (\<lambda>i. of_count i * vals ! i) [0 ..< length vals])"

definition lr_denominator :: "nat \<Rightarrow> num" where
  "lr_denominator n = of_count n * lr_sumX2 n - lr_sumX n * lr_sumX n"

definition linearRegression :: "num list \<Rightarrow> num" where
  "linearRegression vals =
     (let n = length vals in
      if n = 0 then Fin 0
      else if n = 1 then vals ! 0
      else
        let sumX = lr_sumX n;
            sumY = sum_reduce vals;
            sumXY = lr_sumXY vals;
            denominator = lr_denominator n
        in if strict_eq denominator (Fin 0) then vals ! (n - 1)
           else
             let slope = (of_count n * sumXY - sumX * sumY) / denominator;
                 intercept = (sumY - slope * sumX) / of_count n
             in intercept + slope * (of_count n - Fin 1))"

text \<open>
  \<open>calculateTTMSqueeze\<close> of \<open>ChartTtmSqueezeComponent\<close>. The first pass pushes one
  entry per position to each array: from the window of a position, \<open>kc_bounds\<close> is what
  it pushes to the two bands, \<open>in_squeeze\<close> what it pushes to \<open>squeeze\<close>, and
  \<open>val_series\<close> the array \<open>valSeries\<close> whose regression value goes to \<open>rawMomentum\<close>. The
  second pass copies \<open>rawMomentum\<close> to \<open>momentum\<close> and to \<open>histogram\<close> and picks the
  colour of each bar.
\<close>

record ttm_squeeze_data =
  ttm_upperBand :: "num option list"
  ttm_lowerBand :: "num option list"
  momentum :: "num option list"
  squeeze :: "bool list"
  ttm_histogram :: "num option list"
  barColors :: "string list"

definition k_midpoint :: "num list \<Rightarrow> nat \<Rightarrow> nat \<Rightarrow> num" where
  "k_midpoint prices period k =
     (let kSlice = window prices period k;
          kSma = sum_reduce kSlice / of_count period;
          kHighest = js_max kSlice;
          kLowest = js_min kSlice;
          kDonchianMid = (kHighest + kLowest) / Fin 2
      in (kDonchianMid + kSma) / Fin 2)"

definition val_series :: "num list \<Rightarrow> nat \<Rightarrow> nat \<Rightarrow> num list" where
  "val_series prices period i =
     map (\<lambda>k. prices ! k - k_midpoint prices period k)
       (filter (\<lambda>k. int k \<ge> int period - 1) [i + 1 - period ..< i + 1])"

definition in_squeeze :: "num list \<Rightarrow> nat \<Rightarrow> num \<Rightarrow> num \<Rightarrow> nat \<Rightarrow> bool" where
  "in_squeeze prices period kcMultiplier bbMultiplier i =
     (let sl = window prices period i;
          trueRanges = true_ranges sl;
          avgTrueRange = sum_reduce trueRanges / of_count (length trueRanges);
          sma = sum_reduce sl / of_count period;
          kcUpper = sma + (kcMultiplier * avgTrueRange);
          kcLower = sma - (kcMultiplier * avgTrueRange);
          variance = variance_of sl sma period;
          stdDev = js_sqrt variance;
          bbUpper = sma + (bbMultiplier * stdDev);
          bbLower = sma - (bbMultiplier * stdDev)
      in bbUpper < kcUpper \<and> kcLower < bbLower)"

definition kc_bounds :: "num list \<Rightarrow> nat \<Rightarrow> num \<Rightarrow> nat \<Rightarrow> num \<times> num" where
  "kc_bounds prices period kcMultiplier i =
     (let sl = window prices period i;
          trueRanges = true_ranges sl;
          avgTrueRange = sum_reduce trueRanges / of_count (length trueRanges);
          sma = sum_reduce sl / of_count period
      in (sma + (kcMultiplier * avgTrueRange), sma - (kcMultiplier * avgTrueRange)))"

definition bar_color :: "num option list \<Rightarrow> nat \<Rightarrow> string" where
  "bar_color rawMomentum i =
     (let currentMomentum = rawMomentum ! i;
          prevMomentum = (if 0 < i then rawMomentum ! (i - 1) else None)
      in case currentMomentum of
           None \<Rightarrow> ''rgba(128, 128, 128, 0.5)''
         | Some cur \<Rightarrow>
             let isPositive = (Fin 0 \<le> cur);
                 isIncreasing = (case prevMomentum of Some prev \<Rightarrow> prev < cur | None \<Rightarrow> True)
             in if isPositive then (if isIncreasing then ''#2196F3'' else ''#00BCD4'')
                else (if isIncreasing then ''#FFEB3B'' else ''#F44336''))"

definition ttm_raw_momentum :: "num list \<Rightarrow> nat \<Rightarrow> num option list" where
  "ttm_raw_momentum prices period =
     map (\<lambda>i. if int i < int period - 1 then None
              else Some (linearRegression (val_series prices period i)))
       [0 ..< length prices]"

definition calculateTTMSqueeze :: "num list \<Rightarrow> nat \<Rightarrow> num \<Rightarrow> num \<Rightarrow> ttm_squeeze_data" where
  "calculateTTMSqueeze prices period kcMultiplier bbMultiplier =
     (let warm = (\<lambda>i. int i < int period - 1);
          idx = [0 ..< length prices];
          rawMomentum = ttm_raw_momentum prices period
      in \<lparr>ttm_upperBand =
            map (\<lambda>i. if warm i then None
                     else Some (fst (kc_bounds prices period kcMultiplier i))) idx,
          ttm_lowerBand =
            map (\<lambda>i. if warm i then None
                     else Some (snd (kc_bounds prices period kcMultiplier i))) idx,
          momentum = rawMomentum,
          squeeze =
            map (\<lambda>i. if warm i then False
                     else in_squeeze prices period kcMultiplier bbMultiplier i) idx,
          ttm_histogram = rawMomentum,
          barColors = map (bar_color rawMomentum) [0 ..< length rawMomentum]\<rparr>)"

text \<open>
  \<open>calculateTTMSqueeze\<close> of \<open>ChartPricePutComponent\<close>: the same bands and the same flag;
  the momentum is the width of the Bollinger band minus the width of the Keltner channel.
\<close>

record put_squeeze_data =
  put_upperBand :: "num option list"
  put_lowerBand :: "num option list"
  put_momentum :: "num option list"
  put_squeeze :: "bool list"
  put_histogram :: "num option list"

definition squeeze_momentum :: "num list \<Rightarrow> nat \<Rightarrow> num \<Rightarrow> num \<Rightarrow> nat \<Rightarrow> num" where
  "squeeze_momentum prices period kcMultiplier bbMultiplier i =
     (let sl = window prices period i;
          trueRanges = true_ranges sl;
          avgTrueRange = sum_reduce trueRanges / of_count (length trueRanges);
          sma = sum_reduce sl / of_count period;
          kcUpper = sma + (kcMultiplier * avgTrueRange);
          kcLower = sma - (kcMultiplier * avgTrueRange);
          variance = variance_of sl sma period;
          stdDev = js_sqrt variance;
          bbUpper = sma + (bbMultiplier * stdDev);
          bbLower = sma - (bbMultiplier * stdDev);
          bbWidth = bbUpper - bbLower;
          kcWidth = kcUpper - kcLower
      in bbWidth - kcWidth)"

definition put_calculateTTMSqueeze :: "num list \<Rightarrow> nat \<Rightarrow> num \<Rightarrow> num \<Rightarrow> put_squeeze_data" where
  "put_calculateTTMSqueeze prices period kcMultiplier bbMultiplier =
     (let warm = (\<lambda>i. int i < int period - 1);
          idx = [0 ..< length prices];
          mom = map (\<lambda>i. if warm i then None
                          else Some (squeeze_momentum prices period kcMultiplier bbMultiplier i)) idx
      in \<lparr>put_upperBand =
            map (\<lambda>i. if warm i then None
                     else Some (fst (kc_bounds prices period kcMultiplier i))) idx,
          put_lowerBand =
            map (\<lambda>i. if warm i then None
                     else Some (snd (kc_bounds prices period kcMultiplier i))) idx,
          put_momentum = mom,
          put_squeeze =
            map (\<lambda>i. if warm i then False
                     else in_squeeze prices period kcMultiplier bbMultiplier i) idx,
          put_histogram = mom\<rparr>)"

section \<open>Directional movement\<close>

text \<open>
  The price changes seen by both DMI computations: for every \<open>i\<close> from 1 on, the pair
  of \<open>prices[i]\<close> and \<open>prices[i - 1]\<close>.
\<close>

definition price_steps :: "num list \<Rightarrow> (num \<times> num) list" where
  "price_steps prices = map (\<lambda>i. (prices ! i, prices ! (i - 1))) [1 ..< length prices]"

definition plus_dm :: "num \<times> num \<Rightarrow> num" where
  "plus_dm step =
     (let upMove = fst step - snd step; downMove = snd step - fst step
      in if downMove < upMove \<and> Fin 0 < upMove then upMove
         else if upMove < downMove \<and> Fin 0 < downMove then Fin 0
         else Fin 0)"

definition minus_dm :: "num \<times> num \<Rightarrow> num" where
  "minus_dm step =
     (let upMove = fst step - snd step; downMove = snd step - fst step
      in if downMove < upMove \<and> Fin 0 < upMove then Fin 0
         else if upMove < downMove \<and> Fin 0 < downMove then downMove
         else Fin 0)"

fun wilder_loop :: "nat \<Rightarrow> num \<Rightarrow> num list \<Rightarrow> num list" where
  "wilder_loop period prev [] = []"
| "wilder_loop period prev (v # vs) =
     (let newSmoothed = wilder_step period prev v
      in newSmoothed # wilder_loop period newSmoothed vs)"

subsection \<open>The DMI component\<close>

text \<open>
  \<open>wildersSmoothing\<close> and \<open>calculateDMI\<close> of \<open>ChartDmiComponent\<close>, the dedicated DMI
  chart. \<open>dmiData\<close> is the value returned. \<open>adxIndex\<close> is an integer, since
  \<open>diIndex - (period - 1)\<close> is computed on numbers.
\<close>

definition wildersSmoothing :: "num list \<Rightarrow> nat \<Rightarrow> num list" where
  "wildersSmoothing vals period =
     (if length vals < period then []
      else
        let first = sum_reduce (take period vals) / of_count period
        in first # wilder_loop period first (drop period vals))"

record dmi_data =
  plusDI :: "num option list"
  minusDI :: "num option list"
  adx :: "num option list"

definition di_row :: "num list \<Rightarrow> num list \<Rightarrow> num list \<Rightarrow> nat \<Rightarrow> num \<times> num \<times> num" where
  "di_row smoothedTR smoothedPlusDM smoothedMinusDM i =
     (let tr = smoothedTR ! i in
      if strict_eq tr (Fin 0) then (Fin 0, Fin 0, Fin 0)
      else
        let plusDI = (smoothedPlusDM ! i / tr) * Fin 100;
            minusDI = (smoothedMinusDM ! i / tr) * Fin 100;
            diSum = plusDI + minusDI;
            dx = (if strict_eq diSum (Fin 0) then Fin 0
                  else (\<bar>plusDI - minusDI\<bar> / diSum) * Fin 100)
        in (plusDI, minusDI, dx))"

definition di_rows :: "num list \<Rightarrow> nat \<Rightarrow> (num \<times> num \<times> num) list" where
  "di_rows prices period =
     (let steps = price_steps prices;
          trueRanges = map (\<lambda>step. \<bar>fst step - snd step\<bar>) steps;
          plusDM = map plus_dm steps;
          minusDM = map minus_dm steps;
          smoothedTR = wildersSmoothing trueRanges period;
          smoothedPlusDM = wildersSmoothing plusDM period;
          smoothedMinusDM = wildersSmoothing minusDM period
      in map (di_row smoothedTR smoothedPlusDM smoothedMinusDM) [0 ..< length smoothedTR])"

definition dmi_output_row :: "nat \<Rightarrow> num list \<Rightarrow> num list \<Rightarrow> num list \<Rightarrow> nat
    \<Rightarrow> num option \<times> num option \<times> num option" where
  "dmi_output_row period plusDIValues minusDIValues adxValues i =
     (if i < period then (None, None, None)
      else
        let diIndex = i - period in
        if diIndex < length plusDIValues then
          (Some (plusDIValues ! diIndex), Some (minusDIValues ! diIndex),
           (if int i < int period * 2 - 1 \<or> diIndex \<ge> length adxValues then None
            else
              let adxIndex = int diIndex - (int period - 1) in
              if adxIndex \<ge> 0 \<and> adxIndex < int (length adxValues)
              then Some (adxValues ! nat adxIndex)
              else None))
        else (None, None, None))"

definition calculateDMI :: "num list \<Rightarrow> nat \<Rightarrow> dmi_data" where
  "calculateDMI prices period =
     (if length prices < period + 1 then
        \<lparr>plusDI = replicate (length prices) None,
         minusDI = replicate (length prices) None,
         adx = replicate (length prices) None\<rparr>
      else
        let rows = di_rows prices period;
            plusDIValues = map fst rows;
            minusDIValues = map (\<lambda>r. fst (snd r)) rows;
            dxValues = map (\<lambda>r. snd (snd r)) rows;
            adxValues = wildersSmoothing dxValues period;
            out = map (dmi_output_row period plusDIValues minusDIValues adxValues)
                    [0 ..< length prices]
        in \<lparr>plusDI = map fst out,
            minusDI = map (\<lambda>r. fst (snd r)) out,
            adx = map (\<lambda>r. snd (snd r)) out\<rparr>)"

subsection \<open>The DMI of the put chart\<close>

text \<open>
  \<open>calculateWilderSmoothing\<close> and \<open>calculateDMI\<close> of \<open>ChartPricePutComponent\<close>. The
  output loop reads the arrays it is filling: the ADX values pushed so far and, for the
  first ADX value, the +DI and -DI values of the last \<open>period\<close> positions.
  \<open>put_dmi_step\<close> is one round of that loop on the three arrays.
\<close>

definition calculateWilderSmoothing :: "num list \<Rightarrow> nat \<Rightarrow> num list" where
  "calculateWilderSmoothing vals period =
     (let first = sum_reduce (take period vals) / of_count (min period (length vals))
      in first # wilder_loop period first (drop period vals))"

definition js_max3 :: "num \<Rightarrow> num \<Rightarrow> num \<Rightarrow> num" where
  "js_max3 a b c = js_max [a, b, c]"

definition put_true_range :: "num \<times> num \<Rightarrow> num" where
  "put_true_range step =
     (let high = fst step; low = fst step; prevClose = snd step
      in js_max3 (high - low) \<bar>high - prevClose\<bar> \<bar>low - prevClose\<bar>)"

definition dx_of :: "num \<Rightarrow> num \<Rightarrow> num" where
  "dx_of pDI mDI = \<bar>pDI - mDI\<bar> / (pDI + mDI) * Fin 100"

definition first_adx :: "nat \<Rightarrow> num option list \<Rightarrow> num option list \<Rightarrow> nat \<Rightarrow> num option" where
  "first_adx period plusDIs minusDIs i =
     (let js = filter (\<lambda>j. period \<le> j \<and> j < length plusDIs) [i + 1 - period ..< i + 1];
          dxVals = concat (map (\<lambda>j. case (plusDIs ! j, minusDIs ! j) of
                                       (Some p, Some m) \<Rightarrow> [dx_of p m]
                                     | _ \<Rightarrow> []) js);
          sum = sum_reduce dxVals;
          count = length dxVals
      in if 0 < count then Some (sum / of_count count) else None)"

definition put_dmi_step :: "nat \<Rightarrow> num list \<Rightarrow> num list \<Rightarrow> num list \<Rightarrow> dmi_data \<Rightarrow> nat
    \<Rightarrow> dmi_data" where
  "put_dmi_step period smoothedTR smoothedPlusDM smoothedMinusDM d i =
     (if i < period then
        \<lparr>plusDI = plusDI d @ [None], minusDI = minusDI d @ [None], adx = adx d @ [None]\<rparr>
      else
        let pDI = (smoothedPlusDM ! (i - period) / smoothedTR ! (i - period)) * Fin 100;
            mDI = (smoothedMinusDM ! (i - period) / smoothedTR ! (i - period)) * Fin 100;
            plusDIs = plusDI d @ [Some pDI];
            minusDIs = minusDI d @ [Some mDI];
            dx = dx_of pDI mDI;
            newAdx =
              (if int i < int period * 2 - 1 then None
               else
                 let adxValues = defined_values (adx d) in
                 if length adxValues = 0 then first_adx period plusDIs minusDIs i
                 else
                   let prevADX = adxValues ! (length adxValues - 1)
                   in Some (((prevADX * (of_count period - Fin 1)) + dx) / of_count period))
        in \<lparr>plusDI = plusDIs, minusDI = minusDIs, adx = adx d @ [newAdx]\<rparr>)"

definition put_calculateDMI :: "num list \<Rightarrow> nat \<Rightarrow> dmi_data" where
  "put_calculateDMI prices period =
     (if length prices < period + 1 then
        \<lparr>plusDI = replicate (length prices) None,
         minusDI = replicate (length prices) None,
         adx = replicate (length prices) None\<rparr>
      else
        let steps = price_steps prices;
            trueRanges = map put_true_range steps;
            plusDM = map plus_dm steps;
            minusDM = map minus_dm steps;
            smoothedTR = calculateWilderSmoothing trueRanges period;
            smoothedPlusDM = calculateWilderSmoothing plusDM period;
            smoothedMinusDM = calculateWilderSmoothing minusDM period
        in foldl (put_dmi_step period smoothedTR smoothedPlusDM smoothedMinusDM)
             \<lparr>plusDI = [], minusDI = [], adx = []\<rparr> [0 ..< length prices])"

section \<open>Demand and supply zones\<close>

text \<open>
  \<open>calculateDemandSupplyZones\<close> of \<open>ChartPricePutComponent\<close> and of
  \<open>ChartPriceContainer2Component\<close> (the same text). \<open>demandSupplyZones\<close> is the value
  returned. A date is a string; \<open>dates[i]\<close> beyond the end of the array is \<open>undefined\<close>,
  here \<open>None\<close>. The function has no \<open>throw\<close> and calls nothing that throws.

  \<open>new Date(d).getTime()\<close> belongs to the JavaScript library and is the parameter
  \<open>getTime\<close>; it is \<open>NaN\<close> for a date that does not parse. \<open>Array.prototype.sort\<close> is
  modelled as the stable insertion sort by the comparator, where a comparator value that
  is \<open>NaN\<close> counts as 0. This is the order every engine gives when all end dates
  parse. When one does not, the comparator is not consistent, the order is left to the
  engine, and another engine may order, and so keep, other zones than \<open>sort_by\<close> does;
  nothing proved below depends on the order of the zones.
\<close>

datatype swing_type = High | Low

record swing_point =
  index :: nat
  sp_price :: num
  sp_type :: swing_type

record zone =
  price :: num
  touches :: nat
  startDate :: "string option"
  endDate :: "string option"

record demand_supply_zones =
  demand :: "zone list"
  "supply" :: "zone list"

definition lookbackPeriod :: nat where
  "lookbackPeriod = 5"

definition minZoneStrength :: nat where
  "minZoneStrength = 2"

definition tolerance :: num where
  "tolerance = Fin (2 / 100)"

definition date_at :: "string list \<Rightarrow> nat \<Rightarrow> string option" where
  "date_at dates i = (if i < length dates then Some (dates ! i) else None)"

definition neighbours :: "nat \<Rightarrow> nat list" where
  "neighbours i = filter (\<lambda>j. j \<noteq> i) [i - lookbackPeriod ..< i + lookbackPeriod + 1]"

definition isSwingHigh :: "num list \<Rightarrow> nat \<Rightarrow> bool" where
  "isSwingHigh prices i = list_all (\<lambda>j. \<not> prices ! i \<le> prices ! j) (neighbours i)"

definition isSwingLow :: "num list \<Rightarrow> nat \<Rightarrow> bool" where
  "isSwingLow prices i = list_all (\<lambda>j. \<not> prices ! j \<le> prices ! i) (neighbours i)"

definition swing_at :: "num list \<Rightarrow> nat \<Rightarrow> swing_point list" where
  "swing_at prices i =
     (if isSwingHigh prices i then [\<lparr>index = i, sp_price = prices ! i, sp_type = High\<rparr>]
      else if isSwingLow prices i then [\<lparr>index = i, sp_price = prices ! i, sp_type = Low\<rparr>]
      else [])"

definition swingPoints :: "num list \<Rightarrow> swing_point list" where
  "swingPoints prices =
     concat (map (swing_at prices) [lookbackPeriod ..< length prices - lookbackPeriod])"

text \<open>
  One round of the clustering loop. \<open>touch_first\<close> is the inner loop over the zones: it
  updates the first zone whose anchor price is within the tolerance and stops, or finds
  none.
\<close>

definition near_zone :: "num \<Rightarrow> zone \<Rightarrow> bool" where
  "near_zone p z = (let priceDiff = \<bar>p - price z\<bar> / price z in priceDiff \<le> tolerance)"

fun touch_first :: "num \<Rightarrow> string option \<Rightarrow> zone list \<Rightarrow> zone list option" where
  "touch_first p d [] = None"
| "touch_first p d (z # zs) =
     (if near_zone p z then Some (z\<lparr>touches := touches z + 1, endDate := d\<rparr> # zs)
      else map_option ((#) z) (touch_first p d zs))"

definition add_swing :: "string list \<Rightarrow> zone list \<Rightarrow> swing_point \<Rightarrow> zone list" where
  "add_swing dates zones pt =
     (case touch_first (sp_price pt) (date_at dates (index pt)) zones of
        Some zones' \<Rightarrow> zones'
      | None \<Rightarrow>
          zones @ [\<lparr>price = sp_price pt, touches = 1,
                    startDate = date_at dates (index pt),
                    endDate = date_at dates (index pt)\<rparr>])"

definition cluster :: "string list \<Rightarrow> swing_point list \<Rightarrow> zone list" where
  "cluster dates points = foldl (add_swing dates) [] points"

text \<open>The comparator \<open>(a, b) => new Date(b.endDate).getTime() - new Date(a.endDate).getTime()\<close>\<close>

definition by_recency :: "(string option \<Rightarrow> num) \<Rightarrow> zone \<Rightarrow> zone \<Rightarrow> num" where
  "by_recency getTime a b = getTime (endDate b) - getTime (endDate a)"

fun insert_by :: "('a \<Rightarrow> 'a \<Rightarrow> num) \<Rightarrow> 'a \<Rightarrow> 'a list \<Rightarrow> 'a list" where
  "insert_by cmp x [] = [x]"
| "insert_by cmp x (y # ys) =
     (if Fin 0 < cmp x y then y # insert_by cmp x ys else x # y # ys)"

definition sort_by :: "('a \<Rightarrow> 'a \<Rightarrow> num) \<Rightarrow> 'a list \<Rightarrow> 'a list" where
  "sort_by cmp xs = foldr (insert_by cmp) xs []"

definition strongest_recent :: "(string option \<Rightarrow> num) \<Rightarrow> zone list \<Rightarrow> zone list" where
  "strongest_recent getTime zones =
     slice (sort_by (by_recency getTime) (filter (\<lambda>z. minZoneStrength \<le> touches z) zones)) 0 5"

definition demandZones :: "num list \<Rightarrow> string list \<Rightarrow> zone list" where
  "demandZones prices dates =
     cluster dates (filter (\<lambda>p. sp_type p = Low) (swingPoints prices))"

definition supplyZones :: "num list \<Rightarrow> string list \<Rightarrow> zone list" where
  "supplyZones prices dates =
     cluster dates (filter (\<lambda>p. sp_type p = High) (swingPoints prices))"

definition calculateDemandSupplyZones ::
    "(string option \<Rightarrow> num) \<Rightarrow> num list \<Rightarrow> string list \<Rightarrow> demand_supply_zones" where
  "calculateDemandSupplyZones getTime prices dates =
     (if length prices < 10 then \<lparr>demand = [], supply = []\<rparr>
      else
        \<lparr>demand = strongest_recent getTime (demandZones prices dates),
         supply = strongest_recent getTime (supplyZones prices dates)\<rparr>)"

text \<open>
  The way a call of \<open>calculateDemandSupplyZones\<close> ends: it returns normally, whatever
  the lengths of its two arrays.
\<close>

datatype 'a completion = Throws string | Returns 'a

definition calculateDemandSupplyZones_completion ::
    "(string option \<Rightarrow> num) \<Rightarrow> num list \<Rightarrow> string list \<Rightarrow> demand_supply_zones completion" where
  "calculateDemandSupplyZones_completion getTime prices dates =
     Returns (calculateDemandSupplyZones getTime prices dates)"

text \<open>A price series in which every price is below the next one.\<close>

definition strictly_increasing :: "num list \<Rightarrow> bool" where
  "strictly_increasing prices =
     list_all (\<lambda>i. prices ! i < prices ! (i + 1)) [0 ..< length prices - 1]"

text \<open>
  A stand-in for \<open>getTime\<close> on ISO dates (\<open>YYYY-MM-DD\<close>), used where a concrete call is
  evaluated: it orders two such dates as their time values do, and is \<open>NaN\<close> on
  \<open>undefined\<close>.
\<close>

definition iso_time :: "string option \<Rightarrow> num" where
  "iso_time d =
     (case d of
        None \<Rightarrow> NaN
      | Some s \<Rightarrow> Fin (real (foldl (\<lambda>n c. n * 256 + (of_char c :: nat)) 0 s)))"

text \<open>
  A series of 17 prices with a swing low of 100 at index 5 and a swing low of 101 at
  index 11, and the 17 dates of its periods.
\<close>

definition two_lows :: "num list" where
  "two_lows = map Fin [110, 109, 108, 107, 106, 100, 106, 107, 108, 107, 106, 101,
                       106, 107, 108, 109, 110]"

definition two_lows_dates :: "string list" where
  "two_lows_dates =
     [''2024-01-01'', ''2024-01-02'', ''2024-01-03'', ''2024-01-04'', ''2024-01-05'',
      ''2024-01-06'', ''2024-01-07'', ''2024-01-08'', ''2024-01-09'', ''2024-01-10'',
      ''2024-01-11'', ''2024-01-12'', ''2024-01-13'', ''2024-01-14'', ''2024-01-15'',
      ''2024-01-16'', ''2024-01-17'']"

section \<open>Intermediate values of the computations\<close>

text \<open>
  The values that the variables \<open>avgGain\<close> and \<open>avgLoss\<close> of \<open>calculateRSI\<close> take, in
  the order in which an RSI value is computed from them.
\<close>

definition avg_gains :: "num list \<Rightarrow> nat \<Rightarrow> num list" where
  "avg_gains prices period =
     (let gains = gains_of prices;
          avgGain = sum_reduce (slice gains 0 period) / of_count period
      in avgGain # wilder_loop period avgGain (drop period gains))"

definition avg_losses :: "num list \<Rightarrow> nat \<Rightarrow> num list" where
  "avg_losses prices period =
     (let losses = losses_of prices;
          avgLoss = sum_reduce (slice losses 0 period) / of_count period
      in avgLoss # wilder_loop period avgLoss (drop period losses))"

text \<open>The array \<open>smoothedTR\<close> of \<open>calculateDMI\<close> in the DMI component.\<close>

definition smoothed_tr :: "num list \<Rightarrow> nat \<Rightarrow> num list" where
  "smoothed_tr prices period =
     wildersSmoothing (map (\<lambda>step. \<bar>fst step - snd step\<bar>) (price_steps prices)) period"

text \<open>
  The state of the output loop of the put chart's \<open>calculateDMI\<close> after \<open>n\<close> rounds, as
  far as the positions of the defined entries go: +DI and -DI are defined from index \<open>N\<close>
  on and ADX from index \<open>2N - 1\<close> on.
\<close>

definition put_dmi_inv :: "nat \<Rightarrow> nat \<Rightarrow> dmi_data \<Rightarrow> bool" where
  "put_dmi_inv N n d =
     (length (plusDI d) = n \<and> length (minusDI d) = n \<and> length (adx d) = n
      \<and> (\<forall>j. j < n \<longrightarrow>
            (plusDI d ! j \<noteq> None) = (N \<le> j)
            \<and> (minusDI d ! j \<noteq> None) = (N \<le> j)
            \<and> (adx d ! j \<noteq> None) = (2 * N - 1 \<le> j)))"

section \<open>Properties of the indicators\<close>

subsection \<open>Exponential moving average\<close>

lemma length_ema_loop: "length (ema_loop m prev ps) = length ps"
  by (induction ps arbitrary: prev) (simp_all add: Let_def)

lemma length_calculateEMA: "length (calculateEMA prices period) = length prices"
  by (simp add: calculateEMA_def Let_def length_ema_loop)

lemma calculateEMA_short:
  "length prices < period \<Longrightarrow> calculateEMA prices period = replicate (length prices) None"
  by (simp add: calculateEMA_def Let_def)

lemma calculateEMA_seed_value:
  assumes "0 < period" "period \<le> length prices"
  shows "calculateEMA prices period ! (period - 1)
         = Some (sum_reduce (take period prices) / of_count period)"
  using assms by (simp add: calculateEMA_def Let_def nth_append)

lemma calculateEMA_before_seed:
  assumes "period \<le> length prices" "i < period - 1"
  shows "calculateEMA prices period ! i = None"
proof -
  have "i < period" "i \<noteq> period - 1" using assms by simp_all
  then show ?thesis using assms by (simp add: calculateEMA_def Let_def nth_append)
qed

lemma SMA_seed_value:
  assumes "0 < period" "period \<le> length series"
  shows "SMA series period ! (period - 1)
         = Some (sum_reduce (take period series) / of_count period)"
proof -
  have "period - 1 < length series" using assms by simp
  moreover have "\<not> int (period - 1) < int period - 1" using assms by simp
  moreover have "slice series (period - 1 + 1 - period) (period - 1 + 1) = take period series"
    using assms by (simp add: slice_def)
  ultimately show ?thesis by (simp add: SMA_def)
qed

text \<open>
  C3. For a series \<open>S\<close> and a period \<open>P\<close> with \<open>1 \<le> P \<le> length S\<close>, the entry of
  \<open>calculateEMA S P\<close> at index \<open>P - 1\<close> is the entry of \<open>SMA S P\<close> at the same index,
  namely the sum of the first \<open>P\<close> values divided by \<open>P\<close>, and every entry before index
  \<open>P - 1\<close> is absent. When \<open>length S < P\<close> every entry is absent. The output always has
  one entry per input position.
\<close>

theorem calculateEMA_seed:
  "(0 < P \<and> P \<le> length S \<longrightarrow>
      calculateEMA S P ! (P - 1) = SMA S P ! (P - 1)
      \<and> calculateEMA S P ! (P - 1) = Some (sum_reduce (take P S) / of_count P)
      \<and> (\<forall>i. i < P - 1 \<longrightarrow> calculateEMA S P ! i = None))
   \<and> (length S < P \<longrightarrow> (\<forall>i. i < length S \<longrightarrow> calculateEMA S P ! i = None))
   \<and> length (calculateEMA S P) = length S"
  using calculateEMA_seed_value [of P S] SMA_seed_value [of P S]
    calculateEMA_before_seed [of P S] calculateEMA_short [of S P] length_calculateEMA [of S P]
  by simp

theorem calculateEMA_seed_witness:
  "calculateEMA [Fin 1, Fin 2, Fin 6, Fin 4] 3 ! 2 = SMA [Fin 1, Fin 2, Fin 6, Fin 4] 3 ! 2
   \<and> calculateEMA [Fin 1, Fin 2, Fin 6, Fin 4] 3 ! 2 = Some (Fin 3)
   \<and> calculateEMA [Fin 1, Fin 2, Fin 6, Fin 4] 3 ! 0 = None
   \<and> calculateEMA [Fin 1, Fin 2, Fin 6, Fin 4] 3 ! 1 = None
   \<and> calculateEMA [Fin 1, Fin 2] 3 ! 0 = None
   \<and> calculateEMA [Fin 1, Fin 2] 3 ! 1 = None"
  using calculateEMA_seed [of 3 "[Fin 1, Fin 2, Fin 6, Fin 4]"]
        calculateEMA_seed [of 3 "[Fin 1, Fin 2]"]
  by (simp add: sum_reduce_def of_count_def SMA_def slice_def upt_rec)

subsection \<open>MACD\<close>

lemma length_macd_line: "length (macd_line n f s) = n"
  by (simp add: macd_line_def)

lemma length_align_signal: "length (align_signal macdLine signalLine) = length macdLine"
  by (induction macdLine signalLine rule: align_signal.induct) simp_all

lemma length_histogram_of: "length (histogram_of m s) = length m"
  by (simp add: histogram_of_def)

lemma histogram_of_nth:
  "i < length m \<Longrightarrow>
   histogram_of m s ! i = (case (m ! i, s ! i) of (Some a, Some b) \<Rightarrow> Some (a - b) | _ \<Rightarrow> None)"
  by (simp add: histogram_of_def split: option.splits)

lemma histogram_of_None:
  "i < length m \<Longrightarrow> (histogram_of m s ! i = None) = (m ! i = None \<or> s ! i = None)"
  by (simp add: histogram_of_nth split: option.splits)

lemma histogram_of_Some:
  "i < length m \<Longrightarrow> m ! i = Some a \<Longrightarrow> s ! i = Some b \<Longrightarrow> histogram_of m s ! i = Some (a - b)"
  by (simp add: histogram_of_nth)

text \<open>
  C2. For every price series and every MACD configuration, when the series is shorter
  than the slow period the MACD line, the signal line and the histogram are absent at
  every position. Otherwise the histogram is absent at exactly the positions where the
  MACD line or the realigned signal line is absent, and where both are defined the
  histogram is the MACD line minus the signal line. The three arrays have one entry per
  input position.
\<close>

theorem calculateMACD_histogram:
  "(let r = calculateMACD prices fastPeriod slowPeriod signalPeriod in
     (length prices < slowPeriod \<longrightarrow>
        macd r = replicate (length prices) None
        \<and> signal r = replicate (length prices) None
        \<and> histogram r = replicate (length prices) None)
     \<and> (slowPeriod \<le> length prices \<longrightarrow>
        (\<forall>i. i < length prices \<longrightarrow>
           (histogram r ! i = None) = (macd r ! i = None \<or> signal r ! i = None)
           \<and> (\<forall>m s. macd r ! i = Some m \<and> signal r ! i = Some s
                  \<longrightarrow> histogram r ! i = Some (m - s))))
     \<and> length (macd r) = length prices
     \<and> length (signal r) = length prices
     \<and> length (histogram r) = length prices)"
proof (cases "length prices < slowPeriod")
  case True
  then show ?thesis by (simp add: calculateMACD_def)
next
  case False
  define macdLine where
    "macdLine = macd_line (length prices) (calculateEMA prices fastPeriod)
                  (calculateEMA prices slowPeriod)"
  define aligned where
    "aligned = align_signal macdLine (calculateEMA (defined_values macdLine) signalPeriod)"
  have r: "calculateMACD prices fastPeriod slowPeriod signalPeriod
           = \<lparr>macd = macdLine, signal = aligned, histogram = histogram_of macdLine aligned\<rparr>"
    using False by (simp add: calculateMACD_def Let_def macdLine_def aligned_def)
  have len: "length macdLine = length prices"
    by (simp add: macdLine_def length_macd_line)
  show ?thesis
    using False
    by (simp add: r Let_def len aligned_def length_align_signal length_histogram_of
          histogram_of_None histogram_of_Some)
qed

theorem calculateMACD_histogram_witness:
  "histogram (calculateMACD [Fin 1, Fin 2, Fin 4, Fin 8, Fin 16] 2 3 2) ! 2 = None
   \<and> histogram (calculateMACD [Fin 1, Fin 2, Fin 4, Fin 8, Fin 16] 2 3 2) ! 3
       = Some (Fin (11 / 9) - Fin (37 / 36))
   \<and> histogram (calculateMACD [Fin 1] 2 3 2) = [None]"
proof -
  have m: "macd (calculateMACD [Fin 1, Fin 2, Fin 4, Fin 8, Fin 16] 2 3 2)
           = [None, None, Some (Fin (5 / 6)), Some (Fin (11 / 9)), Some (Fin (239 / 108))]"
    by code_simp
  have s: "signal (calculateMACD [Fin 1, Fin 2, Fin 4, Fin 8, Fin 16] 2 3 2)
           = [None, None, None, Some (Fin (37 / 36)), Some (Fin (589 / 324))]"
    by code_simp
  note long = calculateMACD_histogram
    [where prices = "[Fin 1, Fin 2, Fin 4, Fin 8, Fin 16]" and fastPeriod = 2
       and slowPeriod = 3 and signalPeriod = 2, unfolded Let_def]
  note short = calculateMACD_histogram
    [where prices = "[Fin 1]" and fastPeriod = 2 and slowPeriod = 3 and signalPeriod = 2,
     unfolded Let_def]
  have h2: "histogram (calculateMACD [Fin 1, Fin 2, Fin 4, Fin 8, Fin 16] 2 3 2) ! 2 = None"
    using long m s by simp
  have h3: "histogram (calculateMACD [Fin 1, Fin 2, Fin 4, Fin 8, Fin 16] 2 3 2) ! 3
            = Some (Fin (11 / 9) - Fin (37 / 36))"
    using long m s by simp
  have h: "histogram (calculateMACD [Fin 1] 2 3 2) = [None]"
    using short by simp
  show ?thesis using h2 h3 h by blast
qed

subsection \<open>RSI\<close>

lemma length_rsi_loop: "length (rsi_loop period g l rest) = length rest"
  by (induction rest arbitrary: g l) (auto simp: Let_def)

lemma length_changes: "length (changes prices) = length prices - 1"
  by (simp add: changes_def)

lemma length_calculateRSI:
  assumes "period + 1 \<le> length prices"
  shows "length (calculateRSI prices period) = length prices - period + 1"
  using assms
  by (simp add: calculateRSI_def Let_def length_rsi_loop gains_of_def losses_of_def
        length_changes)

lemma calculateRSI_first_value:
  assumes "period + 1 \<le> length prices"
  shows "calculateRSI prices period ! 1
         = Some (rsi_value (sum_reduce (take period (gains_of prices)) / of_count period)
                           (sum_reduce (take period (losses_of prices)) / of_count period))"
  using assms by (simp add: calculateRSI_def Let_def slice_def)

text \<open>
  C1. The specification asks for one RSI entry per input position, absent before index \<open>P\<close>.
  \<open>calculateRSI\<close> pushes a single absent entry and then the first RSI value, which is
  computed from the plain average of the first \<open>P\<close> gains and losses but lands at index 1;
  the output has \<open>length S - P + 1\<close> entries (\<open>length_calculateRSI\<close>,
  \<open>calculateRSI_first_value\<close>). On the four prices 1, 2, 3, 4 with period 2 the output
  has three entries, and the entry at index 1, before index \<open>P = 2\<close>, is defined.
\<close>

theorem calculateRSI_misaligned:
  "calculateRSI [Fin 1, Fin 2, Fin 3, Fin 4] 2 = [None, Some (Fin 100), Some (Fin 100)]"
  by code_simp

subsection \<open>Demand and supply zones\<close>

lemma num_less_imp_le: "(a::num) < b \<Longrightarrow> a \<le> b"
  by (cases a; cases b) simp_all

lemma strictly_increasing_step:
  assumes "strictly_increasing prices" "i + 1 < length prices"
  shows "prices ! i < prices ! (i + 1)"
proof -
  have "i \<in> set [0 ..< length prices - 1]" using assms(2) by simp
  then show ?thesis using assms(1) unfolding strictly_increasing_def list_all_iff by blast
qed

lemma not_isSwingHigh_increasing:
  assumes "strictly_increasing prices" "i + 1 < length prices"
  shows "\<not> isSwingHigh prices i"
proof -
  have "i + 1 \<in> set (neighbours i)" by (simp add: neighbours_def lookbackPeriod_def)
  moreover have "prices ! i \<le> prices ! (i + 1)"
    using strictly_increasing_step [OF assms] by (rule num_less_imp_le)
  ultimately show ?thesis unfolding isSwingHigh_def list_all_iff by blast
qed

lemma not_isSwingLow_increasing:
  assumes "strictly_increasing prices" "0 < i" "i < length prices"
  shows "\<not> isSwingLow prices i"
proof -
  have "i - 1 \<in> set (neighbours i)"
    using assms(2) by (auto simp: neighbours_def lookbackPeriod_def)
  moreover have "prices ! (i - 1) \<le> prices ! i"
    using strictly_increasing_step [OF assms(1), of "i - 1"] assms(2,3)
    by (simp add: num_less_imp_le)
  ultimately show ?thesis unfolding isSwingLow_def list_all_iff by blast
qed

lemma swingPoints_increasing:
  assumes "strictly_increasing prices"
  shows "swingPoints prices = []"
proof -
  have "swing_at prices i = []"
    if "i \<in> set [lookbackPeriod ..< length prices - lookbackPeriod]" for i
  proof -
    from that have "0 < i" "i + 1 < length prices" "i < length prices"
      by (auto simp: lookbackPeriod_def)
    then show ?thesis
      using not_isSwingHigh_increasing [OF assms] not_isSwingLow_increasing [OF assms]
      by (simp add: swing_at_def)
  qed
  then show ?thesis by (simp add: swingPoints_def)
qed

text \<open>
  C7. On a strictly increasing price series the zone detector finds no swing point, and
  returns no demand zone and no supply zone.
\<close>

theorem increasing_series_no_zones:
  assumes "strictly_increasing prices"
  shows "calculateDemandSupplyZones getTime prices dates = \<lparr>demand = [], supply = []\<rparr>"
  using swingPoints_increasing [OF assms]
  by (simp add: calculateDemandSupplyZones_def demandZones_def supplyZones_def cluster_def
        strongest_recent_def sort_by_def slice_def)

theorem increasing_series_no_zones_witness:
  "strictly_increasing (map (\<lambda>n. Fin (real n)) [1 ..< 18])
   \<and> calculateDemandSupplyZones iso_time (map (\<lambda>n. Fin (real n)) [1 ..< 18]) two_lows_dates
       = \<lparr>demand = [], supply = []\<rparr>"
proof -
  have inc: "strictly_increasing (map (\<lambda>n. Fin (real n)) [1 ..< 18])"
    by (simp add: strictly_increasing_def list_all_iff)
  show ?thesis using inc increasing_series_no_zones [OF inc] by simp
qed

lemma touch_first_Some:
  assumes "\<exists>z \<in> set zones. near_zone p z"
  shows "\<exists>j. j < length zones \<and> near_zone p (zones ! j)
           \<and> (\<forall>k. k < j \<longrightarrow> \<not> near_zone p (zones ! k))
           \<and> touch_first p d zones
               = Some (zones[j := (zones ! j)\<lparr>touches := touches (zones ! j) + 1,
                                             endDate := d\<rparr>])"
  using assms
proof (induction zones)
  case Nil
  then show ?case by simp
next
  case (Cons z zs)
  show ?case
  proof (cases "near_zone p z")
    case True
    then have "0 < length (z # zs) \<and> near_zone p ((z # zs) ! 0)
           \<and> (\<forall>k. k < 0 \<longrightarrow> \<not> near_zone p ((z # zs) ! k))
           \<and> touch_first p d (z # zs)
               = Some ((z # zs)[0 := ((z # zs) ! 0)\<lparr>touches := touches ((z # zs) ! 0) + 1,
                                                    endDate := d\<rparr>])"
      by simp
    then show ?thesis by blast
  next
    case False
    with Cons.prems have "\<exists>z \<in> set zs. near_zone p z" by auto
    from Cons.IH [OF this] obtain j where j: "j < length zs" "near_zone p (zs ! j)"
      "\<forall>k. k < j \<longrightarrow> \<not> near_zone p (zs ! k)"
      "touch_first p d zs
       = Some (zs[j := (zs ! j)\<lparr>touches := touches (zs ! j) + 1, endDate := d\<rparr>])"
      by blast
    have "\<forall>k. k < Suc j \<longrightarrow> \<not> near_zone p ((z # zs) ! k)"
    proof (intro allI impI)
      fix k assume "k < Suc j"
      then show "\<not> near_zone p ((z # zs) ! k)" using False j(3) by (cases k) simp_all
    qed
    then have "Suc j < length (z # zs) \<and> near_zone p ((z # zs) ! Suc j)
           \<and> (\<forall>k. k < Suc j \<longrightarrow> \<not> near_zone p ((z # zs) ! k))
           \<and> touch_first p d (z # zs)
               = Some ((z # zs)[Suc j := ((z # zs) ! Suc j)
                                  \<lparr>touches := touches ((z # zs) ! Suc j) + 1, endDate := d\<rparr>])"
      using False j by simp
    then show ?thesis by blast
  qed
qed

lemma touch_first_None:
  "\<not> (\<exists>z \<in> set zones. near_zone p z) \<Longrightarrow> touch_first p d zones = None"
  by (induction zones) auto

lemma swingPoints_short: "length prices < 10 \<Longrightarrow> swingPoints prices = []"
  by (simp add: swingPoints_def lookbackPeriod_def)

lemma cluster_100_101:
  assumes "sp_price l1 = Fin 100" "sp_price l2 = Fin 101"
  shows "cluster dates [l1, l2]
         = [\<lparr>price = Fin 100, touches = 2, startDate = date_at dates (index l1),
             endDate = date_at dates (index l2)\<rparr>]"
  using assms by (simp add: cluster_def add_swing_def near_zone_def tolerance_def)

lemma strongest_recent_single:
  "2 \<le> touches z \<Longrightarrow> strongest_recent getTime [z] = [z]"
  by (simp add: strongest_recent_def minZoneStrength_def sort_by_def slice_def)

text \<open>
  C8. When a swing point is within the 2% tolerance of an existing zone, the first such
  zone of the list has its touch count incremented and its end date set to the date of
  the swing point; its anchor price, and every other zone, stay as they were, and no
  zone is added. In particular, when the swing lows of a series are exactly two, at
  prices 100 and 101 in this order, the demand zones are exactly one zone with two
  touches, anchored at 100, that starts at the date of the first low and ends at the
  date of the second.
\<close>

theorem zone_touch_keeps_anchor:
  "((\<exists>z \<in> set zones. near_zone (sp_price pt) z) \<longrightarrow>
      (\<exists>j. j < length zones \<and> near_zone (sp_price pt) (zones ! j)
         \<and> (\<forall>k. k < j \<longrightarrow> \<not> near_zone (sp_price pt) (zones ! k))
         \<and> add_swing dates zones pt
             = zones[j := (zones ! j)\<lparr>touches := touches (zones ! j) + 1,
                                       endDate := date_at dates (index pt)\<rparr>]
         \<and> price (add_swing dates zones pt ! j) = price (zones ! j)
         \<and> touches (add_swing dates zones pt ! j) = touches (zones ! j) + 1
         \<and> endDate (add_swing dates zones pt ! j) = date_at dates (index pt)))
   \<and> (filter (\<lambda>p. sp_type p = Low) (swingPoints prices) = [l1, l2]
        \<and> sp_price l1 = Fin 100 \<and> sp_price l2 = Fin 101 \<longrightarrow>
        demand (calculateDemandSupplyZones getTime prices dates)
          = [\<lparr>price = Fin 100, touches = 2, startDate = date_at dates (index l1),
              endDate = date_at dates (index l2)\<rparr>])"
proof (intro conjI impI)
  assume "\<exists>z \<in> set zones. near_zone (sp_price pt) z"
  from touch_first_Some [OF this, of "date_at dates (index pt)"]
  obtain j where j: "j < length zones" "near_zone (sp_price pt) (zones ! j)"
    "\<forall>k. k < j \<longrightarrow> \<not> near_zone (sp_price pt) (zones ! k)"
    "touch_first (sp_price pt) (date_at dates (index pt)) zones
     = Some (zones[j := (zones ! j)\<lparr>touches := touches (zones ! j) + 1,
                                    endDate := date_at dates (index pt)\<rparr>])"
    by blast
  have upd: "add_swing dates zones pt
             = zones[j := (zones ! j)\<lparr>touches := touches (zones ! j) + 1,
                                       endDate := date_at dates (index pt)\<rparr>]"
    by (simp add: add_swing_def j(4))
  have "price (add_swing dates zones pt ! j) = price (zones ! j)"
    "touches (add_swing dates zones pt ! j) = touches (zones ! j) + 1"
    "endDate (add_swing dates zones pt ! j) = date_at dates (index pt)"
    using j(1) by (simp_all add: upd)
  with j upd
  show "\<exists>j. j < length zones \<and> near_zone (sp_price pt) (zones ! j)
         \<and> (\<forall>k. k < j \<longrightarrow> \<not> near_zone (sp_price pt) (zones ! k))
         \<and> add_swing dates zones pt
             = zones[j := (zones ! j)\<lparr>touches := touches (zones ! j) + 1,
                                       endDate := date_at dates (index pt)\<rparr>]
         \<and> price (add_swing dates zones pt ! j) = price (zones ! j)
         \<and> touches (add_swing dates zones pt ! j) = touches (zones ! j) + 1
         \<and> endDate (add_swing dates zones pt ! j) = date_at dates (index pt)"
    by blast
next
  assume a: "filter (\<lambda>p. sp_type p = Low) (swingPoints prices) = [l1, l2]
             \<and> sp_price l1 = Fin 100 \<and> sp_price l2 = Fin 101"
  then have "swingPoints prices \<noteq> []" by auto
  then have len: "\<not> length prices < 10" using swingPoints_short by blast
  have "demandZones prices dates
        = [\<lparr>price = Fin 100, touches = 2, startDate = date_at dates (index l1),
            endDate = date_at dates (index l2)\<rparr>]"
    using a cluster_100_101 [of l1 l2 dates] by (simp add: demandZones_def)
  then show "demand (calculateDemandSupplyZones getTime prices dates)
          = [\<lparr>price = Fin 100, touches = 2, startDate = date_at dates (index l1),
              endDate = date_at dates (index l2)\<rparr>]"
    using len by (simp add: calculateDemandSupplyZones_def strongest_recent_single)
qed

theorem zone_touch_keeps_anchor_witness:
  "add_swing two_lows_dates
      [\<lparr>price = Fin 100, touches = 1, startDate = Some ''2024-01-06'',
        endDate = Some ''2024-01-06''\<rparr>]
      \<lparr>index = 11, sp_price = Fin 101, sp_type = Low\<rparr>
     = [\<lparr>price = Fin 100, touches = 2, startDate = Some ''2024-01-06'',
         endDate = Some ''2024-01-12''\<rparr>]
   \<and> demand (calculateDemandSupplyZones iso_time two_lows two_lows_dates)
     = [\<lparr>price = Fin 100, touches = 2, startDate = Some ''2024-01-06'',
         endDate = Some ''2024-01-12''\<rparr>]"
proof -
  let ?z = "\<lparr>price = Fin 100, touches = 1, startDate = Some ''2024-01-06'',
             endDate = Some ''2024-01-06''\<rparr>"
  let ?l1 = "\<lparr>index = 5, sp_price = Fin 100, sp_type = Low\<rparr>"
  let ?l2 = "\<lparr>index = 11, sp_price = Fin 101, sp_type = Low\<rparr>"
  have near: "\<exists>z \<in> set [?z]. near_zone (sp_price ?l2) z"
    by (simp add: near_zone_def tolerance_def)
  have lows: "filter (\<lambda>p. sp_type p = Low) (swingPoints two_lows) = [?l1, ?l2]"
    by code_simp
  have d5: "date_at two_lows_dates 5 = Some ''2024-01-06''" by code_simp
  have d11: "date_at two_lows_dates 11 = Some ''2024-01-12''" by code_simp
  note t = zone_touch_keeps_anchor [where zones = "[?z]" and pt = ?l2
      and dates = two_lows_dates and prices = two_lows and ?l1.0 = ?l1 and ?l2.0 = ?l2
      and getTime = iso_time]
  from t near have "add_swing two_lows_dates [?z] ?l2 = [?z\<lparr>touches := 2, endDate := Some ''2024-01-12''\<rparr>]"
    by (auto simp: d11)
  moreover from t lows have "demand (calculateDemandSupplyZones iso_time two_lows two_lows_dates)
     = [\<lparr>price = Fin 100, touches = 2, startDate = Some ''2024-01-06'',
         endDate = Some ''2024-01-12''\<rparr>]"
    by (simp add: d5 d11)
  ultimately show ?thesis by simp
qed

lemma set_insert_by: "set (insert_by cmp x ys) = insert x (set ys)"
  by (induction ys) auto

lemma set_sort_by: "set (sort_by cmp xs) = set xs"
  by (induction xs) (simp_all add: sort_by_def set_insert_by)

lemma set_strongest_recent: "set (strongest_recent getTime zones) \<subseteq> set zones"
proof -
  have "set (strongest_recent getTime zones)
        \<subseteq> set (sort_by (by_recency getTime) (filter (\<lambda>z. minZoneStrength \<le> touches z) zones))"
    unfolding strongest_recent_def slice_def by (simp add: set_take_subset)
  then show ?thesis by (auto simp: set_sort_by)
qed

text \<open>The dates a zone can carry: those of two positions of the price series.\<close>

lemma touch_first_dates:
  assumes "touch_first p d zones = Some zones'"
    and "\<forall>z \<in> set zones. P (startDate z) \<and> Q (endDate z)"
    and "Q d"
  shows "\<forall>z \<in> set zones'. P (startDate z) \<and> Q (endDate z)"
  using assms
proof (induction zones arbitrary: zones')
  case Nil
  then show ?case by simp
next
  case (Cons z zs)
  show ?case
  proof (cases "near_zone p z")
    case True
    with Cons.prems show ?thesis by auto
  next
    case False
    with Cons.prems(1) obtain zs' where zs': "touch_first p d zs = Some zs'" "zones' = z # zs'"
      by auto
    from Cons.IH [OF zs'(1)] Cons.prems(2,3) zs'(2) show ?thesis by auto
  qed
qed

lemma add_swing_dates:
  assumes "\<forall>z \<in> set zones. P (startDate z) \<and> Q (endDate z)"
    and "P (date_at dates (index pt))" "Q (date_at dates (index pt))"
  shows "\<forall>z \<in> set (add_swing dates zones pt). P (startDate z) \<and> Q (endDate z)"
proof (cases "touch_first (sp_price pt) (date_at dates (index pt)) zones")
  case None
  then show ?thesis using assms by (simp add: add_swing_def)
next
  case (Some zones')
  from touch_first_dates [OF Some assms(1) assms(3)] Some
  show ?thesis by (simp add: add_swing_def)
qed

lemma foldl_add_swing_dates:
  assumes "\<forall>z \<in> set zones. P (startDate z) \<and> Q (endDate z)"
    and "\<forall>pt \<in> set points. P (date_at dates (index pt)) \<and> Q (date_at dates (index pt))"
  shows "\<forall>z \<in> set (foldl (add_swing dates) zones points). P (startDate z) \<and> Q (endDate z)"
  using assms
proof (induction points arbitrary: zones)
  case Nil
  then show ?case by simp
next
  case (Cons pt points)
  have "\<forall>z \<in> set (add_swing dates zones pt). P (startDate z) \<and> Q (endDate z)"
    using add_swing_dates [of zones P Q dates pt] Cons.prems by simp
  from Cons.IH [OF this] Cons.prems(2) show ?case by simp
qed

lemma swingPoints_index:
  "pt \<in> set (swingPoints prices) \<Longrightarrow> index pt < length prices"
  by (auto simp: swingPoints_def swing_at_def lookbackPeriod_def split: if_splits)

lemma cluster_dates:
  assumes "set points \<subseteq> set (swingPoints prices)"
  shows "\<forall>z \<in> set (cluster dates points).
           (\<exists>i. i < length prices \<and> startDate z = date_at dates i)
           \<and> (\<exists>j. j < length prices \<and> endDate z = date_at dates j)"
  unfolding cluster_def
proof (rule foldl_add_swing_dates)
  show "\<forall>z \<in> set []. (\<exists>i. i < length prices \<and> startDate z = date_at dates i)
           \<and> (\<exists>j. j < length prices \<and> endDate z = date_at dates j)"
    by simp
  show "\<forall>pt \<in> set points.
          (\<exists>i. i < length prices \<and> date_at dates (index pt) = date_at dates i)
          \<and> (\<exists>j. j < length prices \<and> date_at dates (index pt) = date_at dates j)"
    using assms swingPoints_index by blast
qed

text \<open>
  C9. The specification asks that a call whose price array and date array differ in
  length fails with an error. \<open>calculateDemandSupplyZones\<close> has no such check: called on
  the 17 prices of \<open>two_lows\<close> and an empty date array it returns normally, with a demand
  zone whose two dates are \<open>undefined\<close>.
\<close>

theorem zones_accept_missing_dates:
  "length two_lows \<noteq> length ([] :: string list)
   \<and> calculateDemandSupplyZones_completion iso_time two_lows []
       = Returns \<lparr>demand = [\<lparr>price = Fin 100, touches = 2, startDate = None, endDate = None\<rparr>],
                  supply = []\<rparr>"
  by code_simp

text \<open>
  C9, as the code has it. Every call of \<open>calculateDemandSupplyZones\<close> returns normally,
  whatever the lengths of the price array and of the date array. Each zone returned
  carries as start date and as end date the entry of the date array at a position of the
  price series, which is \<open>undefined\<close> when that position is beyond the end of the date
  array.
\<close>

theorem zones_never_throw:
  "\<exists>r. calculateDemandSupplyZones_completion getTime prices dates = Returns r
     \<and> (\<forall>z \<in> set (demand r) \<union> set (supply r).
          (\<exists>i. i < length prices \<and> startDate z = date_at dates i)
          \<and> (\<exists>j. j < length prices \<and> endDate z = date_at dates j))"
proof -
  let ?r = "calculateDemandSupplyZones getTime prices dates"
  have d: "set (demand ?r) \<subseteq> set (demandZones prices dates)"
    using set_strongest_recent by (simp add: calculateDemandSupplyZones_def)
  have s: "set (supply ?r) \<subseteq> set (supplyZones prices dates)"
    using set_strongest_recent by (simp add: calculateDemandSupplyZones_def)
  have "\<forall>z \<in> set (demandZones prices dates) \<union> set (supplyZones prices dates).
          (\<exists>i. i < length prices \<and> startDate z = date_at dates i)
          \<and> (\<exists>j. j < length prices \<and> endDate z = date_at dates j)"
    using cluster_dates [of "filter (\<lambda>p. sp_type p = Low) (swingPoints prices)" prices dates]
      cluster_dates [of "filter (\<lambda>p. sp_type p = High) (swingPoints prices)" prices dates]
    by (auto simp: demandZones_def supplyZones_def)
  with d s have "\<forall>z \<in> set (demand ?r) \<union> set (supply ?r).
          (\<exists>i. i < length prices \<and> startDate z = date_at dates i)
          \<and> (\<exists>j. j < length prices \<and> endDate z = date_at dates j)"
    by blast
  then show ?thesis by (simp add: calculateDemandSupplyZones_completion_def)
qed

theorem zones_never_throw_witness:
  "calculateDemandSupplyZones_completion iso_time two_lows (take 8 two_lows_dates)
     = Returns \<lparr>demand = [\<lparr>price = Fin 100, touches = 2, startDate = Some ''2024-01-06'',
                           endDate = None\<rparr>],
                supply = []\<rparr>
   \<and> (\<exists>i. i < length two_lows \<and> Some ''2024-01-06'' = date_at (take 8 two_lows_dates) i)
   \<and> (\<exists>j. j < length two_lows \<and> None = date_at (take 8 two_lows_dates) j)"
proof -
  have ev: "calculateDemandSupplyZones_completion iso_time two_lows (take 8 two_lows_dates)
     = Returns \<lparr>demand = [\<lparr>price = Fin 100, touches = 2, startDate = Some ''2024-01-06'',
                           endDate = None\<rparr>],
                supply = []\<rparr>"
    by code_simp
  from zones_never_throw [of iso_time two_lows "take 8 two_lows_dates"] ev
  show ?thesis by simp
qed

subsection \<open>TTM Squeeze\<close>

text \<open>
  C10. Both TTM Squeeze computations return a squeeze array with one boolean per input
  position, and at every warm-up position (an index below \<open>period - 1\<close>) the flag is
  \<open>false\<close>, while the momentum, the histogram and the two bands are absent there.
\<close>

theorem squeeze_flag_warmup:
  "(let r = calculateTTMSqueeze prices period kcMultiplier bbMultiplier;
        q = put_calculateTTMSqueeze prices period kcMultiplier bbMultiplier
    in length (squeeze r) = length prices
       \<and> length (put_squeeze q) = length prices
       \<and> (\<forall>i. i < length prices \<and> int i < int period - 1 \<longrightarrow>
            squeeze r ! i = False \<and> momentum r ! i = None \<and> ttm_histogram r ! i = None
            \<and> ttm_upperBand r ! i = None \<and> ttm_lowerBand r ! i = None
            \<and> put_squeeze q ! i = False \<and> put_momentum q ! i = None
            \<and> put_histogram q ! i = None
            \<and> put_upperBand q ! i = None \<and> put_lowerBand q ! i = None))"
  by (simp add: calculateTTMSqueeze_def put_calculateTTMSqueeze_def ttm_raw_momentum_def
        Let_def)

theorem squeeze_flag_warmup_witness:
  "squeeze (calculateTTMSqueeze [Fin 1, Fin 2, Fin 3, Fin 4] 3 (Fin (3 / 2)) (Fin 2)) ! 1 = False
   \<and> momentum (calculateTTMSqueeze [Fin 1, Fin 2, Fin 3, Fin 4] 3 (Fin (3 / 2)) (Fin 2)) ! 1
       = None
   \<and> put_squeeze (put_calculateTTMSqueeze [Fin 1, Fin 2, Fin 3, Fin 4] 3 (Fin (3 / 2)) (Fin 2))
       ! 1 = False
   \<and> put_momentum (put_calculateTTMSqueeze [Fin 1, Fin 2, Fin 3, Fin 4] 3 (Fin (3 / 2)) (Fin 2))
       ! 1 = None
   \<and> length (squeeze (calculateTTMSqueeze [Fin 1, Fin 2, Fin 3, Fin 4] 3 (Fin (3 / 2)) (Fin 2)))
       = 4"
  using squeeze_flag_warmup
    [where prices = "[Fin 1, Fin 2, Fin 3, Fin 4]" and period = 3
       and kcMultiplier = "Fin (3 / 2)" and bbMultiplier = "Fin 2", unfolded Let_def]
  by simp

subsection \<open>Directional movement\<close>

text \<open>
  C6. The specification asks that, for a series of at least \<open>2N\<close> prices, +DI and -DI
  are first defined at index \<open>N\<close> and ADX at index \<open>2N - 1\<close>. The DMI component computes
  the ADX value of index \<open>2N - 1\<close> but drops it when \<open>diIndex >= adxValues.length\<close>, a
  test on the wrong index: on the four prices 1, 2, 3, 4 with length \<open>N = 2\<close> the +DI
  and -DI values start at index 2, and ADX is absent at index 3 and everywhere else. The
  DMI of the put chart defines ADX at index 3 on the same input.
\<close>

theorem dmi_component_drops_adx:
  "calculateDMI [Fin 1, Fin 2, Fin 3, Fin 4] 2
     = \<lparr>plusDI = [None, None, Some (Fin 100), Some (Fin 100)],
        minusDI = [None, None, Some (Fin 0), Some (Fin 0)],
        adx = [None, None, None, None]\<rparr>
   \<and> put_calculateDMI [Fin 1, Fin 2, Fin 3, Fin 4] 2
     = \<lparr>plusDI = [None, None, Some (Fin 100), Some (Fin 100)],
        minusDI = [None, None, Some (Fin 0), Some (Fin 0)],
        adx = [None, None, None, Some (Fin 100)]\<rparr>"
  by code_simp

subsection \<open>Volatility bands\<close>

text \<open>
  C4. The specification asks that at every position from \<open>P - 1\<close> on the bands satisfy
  upper \<open>\<ge>\<close> middle \<open>\<ge>\<close> lower. With period 1 the window of \<open>calculateKeltnerChannels\<close>
  holds one price and no true range, the average true range is \<open>0 / 0\<close>, and the upper
  and the lower band are \<open>NaN\<close>, which compares with nothing: on the single price 10 with
  multiplier 2 neither \<open>upper >= middle\<close> nor \<open>middle >= lower\<close> holds.
\<close>

theorem keltner_period_one_nan:
  "calculateKeltnerChannels [Fin 10] 1 (Fin 2)
     = \<lparr>upperBand = [Some NaN], middleBand = [Some (Fin 10)], lowerBand = [Some NaN]\<rparr>
   \<and> \<not> (Fin 10 \<le> NaN) \<and> \<not> (NaN \<le> Fin 10)"
  by code_simp

subsection \<open>Zero denominators\<close>

lemma rsi_loop_zip:
  "length gs = length ls \<Longrightarrow>
   rsi_loop period g l (zip gs ls)
   = map (\<lambda>(a, b). Some (rsi_value a b)) (zip (wilder_loop period g gs) (wilder_loop period l ls))"
  by (induction gs ls arbitrary: g l rule: list_induct2) (simp_all add: Let_def)

lemma length_wilder_loop: "length (wilder_loop period prev vs) = length vs"
  by (induction vs arbitrary: prev) (simp_all add: Let_def)

lemma length_gains_of: "length (gains_of prices) = length prices - 1"
  by (simp add: gains_of_def length_changes)

lemma length_losses_of: "length (losses_of prices) = length prices - 1"
  by (simp add: losses_of_def length_changes)

lemma length_avg_gains:
  "period + 1 \<le> length prices \<Longrightarrow> length (avg_gains prices period) = length prices - period"
  by (simp add: avg_gains_def Let_def length_wilder_loop length_gains_of)

lemma length_avg_losses:
  "period + 1 \<le> length prices \<Longrightarrow> length (avg_losses prices period) = length prices - period"
  by (simp add: avg_losses_def Let_def length_wilder_loop length_losses_of)

lemma calculateRSI_averages:
  assumes "period + 1 \<le> length prices"
  shows "calculateRSI prices period
         = None # map (\<lambda>(g, l). Some (rsi_value g l))
                    (zip (avg_gains prices period) (avg_losses prices period))"
proof -
  have "drop period (zip (gains_of prices) (losses_of prices))
        = zip (drop period (gains_of prices)) (drop period (losses_of prices))"
    by (simp add: drop_zip)
  moreover have "length (drop period (gains_of prices)) = length (drop period (losses_of prices))"
    by (simp add: length_gains_of length_losses_of)
  ultimately show ?thesis
    using assms
    by (simp add: calculateRSI_def Let_def avg_gains_def avg_losses_def rsi_loop_zip)
qed

lemma rsi_value_zero_loss: "rsi_value g (Fin 0) = Fin 100"
  by (simp add: rsi_value_def strict_eq_def)

lemma calculateRSI_zero_loss:
  assumes "period + 1 \<le> length prices" "k < length prices - period"
    "avg_losses prices period ! k = Fin 0"
  shows "calculateRSI prices period ! (k + 1) = Some (Fin 100)"
  using assms
  by (simp add: calculateRSI_averages length_avg_gains length_avg_losses rsi_value_zero_loss)

lemma length_price_steps: "length (price_steps prices) = length prices - 1"
  by (simp add: price_steps_def)

lemma length_wildersSmoothing:
  "period \<le> length vals \<Longrightarrow> length (wildersSmoothing vals period) = length vals - period + 1"
  by (simp add: wildersSmoothing_def Let_def length_wilder_loop)

lemma length_di_rows: "length (di_rows prices period) = length (smoothed_tr prices period)"
  by (simp add: di_rows_def smoothed_tr_def Let_def)

lemma length_smoothed_tr:
  "period + 1 \<le> length prices \<Longrightarrow> length (smoothed_tr prices period) = length prices - period"
  by (simp add: smoothed_tr_def length_wildersSmoothing length_price_steps)

lemma di_rows_zero_tr:
  assumes "i < length (smoothed_tr prices period)" "smoothed_tr prices period ! i = Fin 0"
  shows "di_rows prices period ! i = (Fin 0, Fin 0, Fin 0)"
  using assms by (simp add: di_rows_def smoothed_tr_def Let_def di_row_def strict_eq_def)

lemma di_rows_zero_sum:
  assumes "i < length (di_rows prices period)"
    "di_rows prices period ! i = (pDI, mDI, dx)" "pDI + mDI = Fin 0"
  shows "dx = Fin 0"
proof -
  define tr where "tr = smoothed_tr prices period"
  have i: "i < length tr" using assms(1) by (simp add: tr_def length_di_rows)
  show ?thesis
  proof (cases "strict_eq (tr ! i) (Fin 0)")
    case True
    then have "di_rows prices period ! i = (Fin 0, Fin 0, Fin 0)"
      using i by (simp add: tr_def di_rows_def smoothed_tr_def Let_def di_row_def)
    then have "(pDI, mDI, dx) = (Fin 0, Fin 0, Fin 0)"
      by (rule trans [OF sym [OF assms(2)]])
    then show ?thesis by blast
  next
    case False
    then show ?thesis
      using i assms(2,3)
      by (auto simp: tr_def di_rows_def smoothed_tr_def Let_def di_row_def strict_eq_def
            split: if_splits)
  qed
qed

lemma calculateDMI_di_values:
  assumes "period + 1 \<le> length prices" "i < length (di_rows prices period)"
  shows "plusDI (calculateDMI prices period) ! (i + period)
           = Some (fst (di_rows prices period ! i))"
    and "minusDI (calculateDMI prices period) ! (i + period)
           = Some (fst (snd (di_rows prices period ! i)))"
proof -
  have len: "i + period < length prices"
    using assms by (simp add: length_di_rows length_smoothed_tr)
  show "plusDI (calculateDMI prices period) ! (i + period)
           = Some (fst (di_rows prices period ! i))"
    using assms len by (simp add: calculateDMI_def Let_def dmi_output_row_def)
  show "minusDI (calculateDMI prices period) ! (i + period)
           = Some (fst (snd (di_rows prices period ! i)))"
    using assms len by (simp add: calculateDMI_def Let_def dmi_output_row_def)
qed

lemma linearRegression_degenerate:
  assumes "vals \<noteq> []" "lr_denominator (length vals) = Fin 0"
  shows "linearRegression vals = last vals"
proof (cases "length vals = 1")
  case True
  then show ?thesis using assms(1) by (simp add: linearRegression_def last_conv_nth)
next
  case False
  with assms(1) have "length vals \<noteq> 0" by simp
  with False show ?thesis
    using assms by (simp add: linearRegression_def Let_def strict_eq_def last_conv_nth)
qed

lemma val_series_nonempty:
  assumes "0 < period" "\<not> int i < int period - 1"
  shows "val_series prices period i \<noteq> []"
proof -
  have "i \<in> set (filter (\<lambda>k. int k \<ge> int period - 1) [i + 1 - period ..< i + 1])"
    using assms by auto
  then show ?thesis unfolding val_series_def by (metis Nil_is_map_conv empty_iff empty_set)
qed

lemma ttm_momentum_value:
  assumes "i < length prices" "\<not> int i < int period - 1"
  shows "momentum (calculateTTMSqueeze prices period kc bb) ! i
         = Some (linearRegression (val_series prices period i))"
  using assms by (simp add: calculateTTMSqueeze_def Let_def ttm_raw_momentum_def)

subsection \<open>Where the DMI values are defined\<close>

text \<open>
  In the DMI component, for a length \<open>N \<ge> 1\<close> and at least \<open>2N\<close> prices, +DI and -DI
  are defined from index \<open>N\<close> on, and ADX is defined at index \<open>i\<close> exactly when
  \<open>2N - 1 \<le> i\<close> and \<open>i + N \<le> length prices\<close>: the last \<open>N - 1\<close> positions have none, and
  index \<open>2N - 1\<close> has one only from \<open>3N - 1\<close> prices on.
\<close>

lemma length_di_rows_eq:
  "period + 1 \<le> length prices \<Longrightarrow> length (di_rows prices period) = length prices - period"
  by (simp add: length_di_rows length_smoothed_tr)

lemma calculateDMI_adx_nth:
  assumes "period + 1 \<le> length prices" "i < length prices"
  shows "adx (calculateDMI prices period) ! i
         = snd (snd (dmi_output_row period (map fst (di_rows prices period))
                       (map (\<lambda>r. fst (snd r)) (di_rows prices period))
                       (wildersSmoothing (map (\<lambda>r. snd (snd r)) (di_rows prices period)) period)
                       i))"
  using assms by (simp add: calculateDMI_def Let_def)

lemma calculateDMI_plusDI_defined:
  assumes "period + 1 \<le> length prices" "i < length prices"
  shows "(plusDI (calculateDMI prices period) ! i \<noteq> None) = (period \<le> i)"
    and "(minusDI (calculateDMI prices period) ! i \<noteq> None) = (period \<le> i)"
  using assms by (auto simp: calculateDMI_def Let_def dmi_output_row_def length_di_rows_eq)

lemma calculateDMI_adx_defined:
  assumes "1 \<le> N" "2 * N \<le> length prices" "i < length prices"
  shows "(adx (calculateDMI prices N) ! i \<noteq> None) = (2 * N - 1 \<le> i \<and> i + N \<le> length prices)"
proof -
  have p: "N + 1 \<le> length prices" using assms by simp
  have dx: "length (map (\<lambda>r. snd (snd r)) (di_rows prices N)) = length prices - N"
    using p by (simp add: length_di_rows_eq)
  have adxlen: "length (wildersSmoothing (map (\<lambda>r. snd (snd r)) (di_rows prices N)) N)
                = length prices - 2 * N + 1"
    using assms dx by (simp add: length_wildersSmoothing)
  show ?thesis
    using assms p
    by (auto simp: calculateDMI_adx_nth dmi_output_row_def Let_def adxlen length_di_rows_eq)
qed

lemma calculateDMI_adx_at_2N_minus_1:
  assumes "1 \<le> N" "2 * N \<le> length prices"
  shows "(adx (calculateDMI prices N) ! (2 * N - 1) \<noteq> None) = (3 * N - 1 \<le> length prices)"
proof -
  have "2 * N - 1 < length prices" using assms by simp
  from calculateDMI_adx_defined [OF assms this] show ?thesis using assms by auto
qed

text \<open>
  In the DMI of the put chart, for a length \<open>N \<ge> 1\<close> and more than \<open>N\<close> prices, +DI and
  -DI are defined exactly from index \<open>N\<close> on and ADX exactly from index \<open>2N - 1\<close> on.
\<close>

lemma first_adx_defined:
  assumes "1 \<le> N" "N \<le> n" "length plusDIs = n + 1"
    "plusDIs ! n = Some p" "minusDIs ! n = Some m"
  shows "first_adx N plusDIs minusDIs n \<noteq> None"
proof -
  define js where "js = filter (\<lambda>j. N \<le> j \<and> j < length plusDIs) [n + 1 - N ..< n + 1]"
  define g where "g = (\<lambda>j. case (plusDIs ! j, minusDIs ! j) of
                              (Some p, Some m) \<Rightarrow> [dx_of p m] | _ \<Rightarrow> [])"
  have "n \<in> set js" using assms(1,2,3) by (auto simp: js_def)
  moreover have "g n = [dx_of p m]" using assms(4,5) by (simp add: g_def)
  ultimately have "dx_of p m \<in> set (concat (map g js))" by force
  then have pos: "0 < length (concat (map g js))" by (cases "concat (map g js)") auto
  have eq: "first_adx N plusDIs minusDIs n
            = (if 0 < length (concat (map g js))
               then Some (sum_reduce (concat (map g js)) / of_count (length (concat (map g js))))
               else None)"
    unfolding first_adx_def Let_def js_def g_def by (rule refl)
  show ?thesis unfolding eq using pos by (simp only: if_True) simp
qed

lemma put_dmi_step_inv:
  assumes "put_dmi_inv N n d" "1 \<le> N"
  shows "put_dmi_inv N (Suc n) (put_dmi_step N sTR sP sM d n)"
proof (cases "n < N")
  case True
  then have step: "put_dmi_step N sTR sP sM d n
        = \<lparr>plusDI = plusDI d @ [None], minusDI = minusDI d @ [None], adx = adx d @ [None]\<rparr>"
    by (simp add: put_dmi_step_def)
  show ?thesis
    using assms True unfolding put_dmi_inv_def step
    by (auto simp: nth_append less_Suc_eq)
next
  case False
  define pDI where "pDI = (sP ! (n - N) / sTR ! (n - N)) * Fin 100"
  define mDI where "mDI = (sM ! (n - N) / sTR ! (n - N)) * Fin 100"
  define newAdx where "newAdx =
     (if int n < int N * 2 - 1 then None
      else
        let adxValues = defined_values (adx d) in
        if length adxValues = 0
        then first_adx N (plusDI d @ [Some pDI]) (minusDI d @ [Some mDI]) n
        else
          let prevADX = adxValues ! (length adxValues - 1)
          in Some (((prevADX * (of_count N - Fin 1)) + dx_of pDI mDI) / of_count N))"
  have step: "put_dmi_step N sTR sP sM d n
        = \<lparr>plusDI = plusDI d @ [Some pDI], minusDI = minusDI d @ [Some mDI],
           adx = adx d @ [newAdx]\<rparr>"
    using False by (simp add: put_dmi_step_def Let_def pDI_def mDI_def newAdx_def)
  have lens: "length (plusDI d) = n" "length (minusDI d) = n" "length (adx d) = n"
    using assms(1) by (simp_all add: put_dmi_inv_def)
  have fa: "first_adx N (plusDI d @ [Some pDI]) (minusDI d @ [Some mDI]) n \<noteq> None"
    using False lens assms(2)
    by (intro first_adx_defined [where p = pDI and m = mDI]) (simp_all add: nth_append)
  have new: "(newAdx \<noteq> None) = (2 * N - 1 \<le> n)"
  proof (cases "int n < int N * 2 - 1")
    case True
    then show ?thesis by (auto simp: newAdx_def)
  next
    case False
    then have "2 * N - 1 \<le> n" by linarith
    with False fa show ?thesis by (simp add: newAdx_def Let_def)
  qed
  show ?thesis
    using assms False new unfolding put_dmi_inv_def step
    by (auto simp: nth_append less_Suc_eq)
qed

lemma put_dmi_foldl_inv:
  assumes "1 \<le> N"
  shows "put_dmi_inv N n (foldl (put_dmi_step N sTR sP sM)
            \<lparr>plusDI = [], minusDI = [], adx = []\<rparr> [0 ..< n])"
proof (induction n)
  case 0
  show ?case by (simp add: put_dmi_inv_def)
next
  case (Suc n)
  from put_dmi_step_inv [OF Suc assms] show ?case by simp
qed

lemma put_calculateDMI_defined:
  assumes "1 \<le> N" "N + 1 \<le> length prices" "i < length prices"
  shows "(plusDI (put_calculateDMI prices N) ! i \<noteq> None) = (N \<le> i)"
    and "(minusDI (put_calculateDMI prices N) ! i \<noteq> None) = (N \<le> i)"
    and "(adx (put_calculateDMI prices N) ! i \<noteq> None) = (2 * N - 1 \<le> i)"
proof -
  define steps where "steps = price_steps prices"
  have "put_dmi_inv N (length prices) (put_calculateDMI prices N)"
    using assms(2) put_dmi_foldl_inv [OF assms(1), of "length prices"]
    by (simp add: put_calculateDMI_def Let_def)
  then show "(plusDI (put_calculateDMI prices N) ! i \<noteq> None) = (N \<le> i)"
    and "(minusDI (put_calculateDMI prices N) ! i \<noteq> None) = (N \<le> i)"
    and "(adx (put_calculateDMI prices N) ! i \<noteq> None) = (2 * N - 1 \<le> i)"
    using assms(3) unfolding put_dmi_inv_def by blast+
qed

subsection \<open>Warm-up and middle band\<close>

text \<open>
  For every period, the Bollinger bands and the Keltner channels are absent at every
  position before \<open>P - 1\<close>, and the middle band of both is the simple moving average.
\<close>

lemma bands_warmup:
  assumes "i < length prices" "int i < int P - 1"
  shows "upperBand (calculateBollingerBands prices P k) ! i = None"
    and "middleBand (calculateBollingerBands prices P k) ! i = None"
    and "lowerBand (calculateBollingerBands prices P k) ! i = None"
    and "upperBand (calculateKeltnerChannels prices P k) ! i = None"
    and "middleBand (calculateKeltnerChannels prices P k) ! i = None"
    and "lowerBand (calculateKeltnerChannels prices P k) ! i = None"
  using assms
  by (simp_all add: calculateBollingerBands_def calculateKeltnerChannels_def bands_of_rows_def
        bollinger_row_def keltner_row_def)

lemma middle_band_is_SMA:
  "middleBand (calculateBollingerBands prices P k) = SMA prices P"
  "middleBand (calculateKeltnerChannels prices P k) = SMA prices P"
  by (simp_all add: calculateBollingerBands_def calculateKeltnerChannels_def bands_of_rows_def
        bollinger_row_def keltner_row_def SMA_def window_def Let_def)

text \<open>
  C5. A zero denominator gives the fallback value. Where the average
  loss of \<open>calculateRSI\<close> is 0 the RSI value is 100. Where the smoothed true range of the
  DMI component is 0, +DI and -DI are 0. Where +DI plus -DI is 0, DX is 0. Where the
  denominator of \<open>linearRegression\<close> is 0 on a window that is not empty, the result, and
  with it the TTM momentum of the position, is the last base value of the window. Each
  fallback is a number of the source text or an input value, not the \<open>NaN\<close> or the
  infinity that the division would give.
\<close>

theorem zero_denominator_fallbacks:
  "(period + 1 \<le> length prices \<and> k < length prices - period
      \<and> avg_losses prices period ! k = Fin 0 \<longrightarrow>
      calculateRSI prices period ! (k + 1) = Some (Fin 100))
   \<and> (period + 1 \<le> length prices \<and> i < length (smoothed_tr prices period)
      \<and> smoothed_tr prices period ! i = Fin 0 \<longrightarrow>
      plusDI (calculateDMI prices period) ! (i + period) = Some (Fin 0)
      \<and> minusDI (calculateDMI prices period) ! (i + period) = Some (Fin 0))
   \<and> (i < length (di_rows prices period) \<and> di_rows prices period ! i = (pDI, mDI, dx)
      \<and> pDI + mDI = Fin 0 \<longrightarrow> dx = Fin 0)
   \<and> (vals \<noteq> [] \<and> lr_denominator (length vals) = Fin 0 \<longrightarrow>
      linearRegression vals = last vals)
   \<and> (0 < period \<and> i < length prices \<and> \<not> int i < int period - 1
      \<and> lr_denominator (length (val_series prices period i)) = Fin 0 \<longrightarrow>
      momentum (calculateTTMSqueeze prices period kc bb) ! i
        = Some (last (val_series prices period i)))"
proof (intro conjI impI)
  assume "period + 1 \<le> length prices \<and> k < length prices - period
      \<and> avg_losses prices period ! k = Fin 0"
  then show "calculateRSI prices period ! (k + 1) = Some (Fin 100)"
    using calculateRSI_zero_loss by blast
next
  assume a: "period + 1 \<le> length prices \<and> i < length (smoothed_tr prices period)
      \<and> smoothed_tr prices period ! i = Fin 0"
  then have row: "di_rows prices period ! i = (Fin 0, Fin 0, Fin 0)"
    using di_rows_zero_tr by blast
  from a have i: "i < length (di_rows prices period)" by (simp add: length_di_rows)
  from a i row calculateDMI_di_values [of period prices i]
  show "plusDI (calculateDMI prices period) ! (i + period) = Some (Fin 0)"
    and "minusDI (calculateDMI prices period) ! (i + period) = Some (Fin 0)"
    by simp_all
next
  assume "i < length (di_rows prices period) \<and> di_rows prices period ! i = (pDI, mDI, dx)
      \<and> pDI + mDI = Fin 0"
  then show "dx = Fin 0" using di_rows_zero_sum by blast
next
  assume "vals \<noteq> [] \<and> lr_denominator (length vals) = Fin 0"
  then show "linearRegression vals = last vals" using linearRegression_degenerate by blast
next
  assume a: "0 < period \<and> i < length prices \<and> \<not> int i < int period - 1
      \<and> lr_denominator (length (val_series prices period i)) = Fin 0"
  then have "val_series prices period i \<noteq> []" using val_series_nonempty by blast
  with a have "linearRegression (val_series prices period i) = last (val_series prices period i)"
    using linearRegression_degenerate by blast
  with a show "momentum (calculateTTMSqueeze prices period kc bb) ! i
        = Some (last (val_series prices period i))"
    using ttm_momentum_value [of i prices period kc bb] by simp
qed

theorem zero_denominator_fallbacks_witness:
  "calculateRSI [Fin 1, Fin 2, Fin 3, Fin 4] 2 ! 1 = Some (Fin 100)
   \<and> plusDI (calculateDMI [Fin 5, Fin 5, Fin 5, Fin 5] 2) ! 2 = Some (Fin 0)
   \<and> minusDI (calculateDMI [Fin 5, Fin 5, Fin 5, Fin 5] 2) ! 2 = Some (Fin 0)
   \<and> di_rows [Fin 5, Fin 5, Fin 5, Fin 5] 2 ! 0 = (Fin 0, Fin 0, Fin 0)
   \<and> linearRegression [Fin 5] = Fin 5
   \<and> momentum (calculateTTMSqueeze [Fin 3, Fin 4] 1 (Fin (3 / 2)) (Fin 2)) ! 1 = Some (Fin 0)"
proof -
  have l: "avg_losses [Fin 1, Fin 2, Fin 3, Fin 4] 2 ! 0 = Fin 0" by code_simp
  have tr: "smoothed_tr [Fin 5, Fin 5, Fin 5, Fin 5] 2 = [Fin 0, Fin 0]" by code_simp
  have rows: "di_rows [Fin 5, Fin 5, Fin 5, Fin 5] 2 = [(Fin 0, Fin 0, Fin 0), (Fin 0, Fin 0, Fin 0)]"
    by code_simp
  have den: "lr_denominator 1 = Fin 0" by code_simp
  have vs: "val_series [Fin 3, Fin 4] 1 1 = [Fin 0]" by code_simp
  note rsi = zero_denominator_fallbacks
    [where prices = "[Fin 1, Fin 2, Fin 3, Fin 4]" and period = 2 and k = 0]
  note dmi = zero_denominator_fallbacks
    [where prices = "[Fin 5, Fin 5, Fin 5, Fin 5]" and period = 2 and i = 0
       and pDI = "Fin 0" and mDI = "Fin 0" and dx = "Fin 0"]
  note lr = zero_denominator_fallbacks [where vals = "[Fin 5]"]
  note ttm = zero_denominator_fallbacks
    [where prices = "[Fin 3, Fin 4]" and period = 1 and i = 1 and kc = "Fin (3 / 2)"
       and bb = "Fin 2"]
  have "calculateRSI [Fin 1, Fin 2, Fin 3, Fin 4] 2 ! 1 = Some (Fin 100)"
    using rsi l by simp
  moreover have "plusDI (calculateDMI [Fin 5, Fin 5, Fin 5, Fin 5] 2) ! 2 = Some (Fin 0)"
    "minusDI (calculateDMI [Fin 5, Fin 5, Fin 5, Fin 5] 2) ! 2 = Some (Fin 0)"
    using dmi tr by (simp_all add: numeral_2_eq_2)
  moreover have "linearRegression [Fin 5] = Fin 5"
    using lr den by simp
  moreover have "momentum (calculateTTMSqueeze [Fin 3, Fin 4] 1 (Fin (3 / 2)) (Fin 2)) ! 1
                 = Some (Fin 0)"
    using ttm vs den by simp
  ultimately show ?thesis using rows by simp
qed

end
